theory Spec2Isabelle
  imports
    Main
    "HOL-Library.Word"
    "HOL-Library.List_Lexorder"
begin

unbundle bit_operations_syntax

section \<open>Versioned key-value engine (basholeveldb driver)\<close>

subsection \<open>Keys, values, contexts\<close>

type_synonym byte = "8 word"
type_synonym bytes = "byte list"
type_synonym InstanceID = "32 word"
type_synonym VersionID = "32 word"
type_synonym TKey = bytes

text \<open>
  Modelled from the spec: the key codec of package \<open>storage\<close> is not part of the
  sources at hand. The spec (3, 4.2) lays a physical key out as
  \<^verbatim>\<open>[class:1][instance-id:4][type-key:variable][version-id:4][tombstone:1]\<close>,
  the ids big-endian, the tombstone flag one byte, 0 or 1. A key is the byte string of this
  layout, and keys are compared as \<open>bytes.Compare\<close> compares them: lexicographically,
  byte by byte, a proper prefix before its extensions. The version and the flag of a key
  are read off its last five bytes.
\<close>

type_synonym Key = bytes

definition be32 :: "32 word \<Rightarrow> bytes" where
  "be32 w = [ucast (drop_bit 24 w), ucast (drop_bit 16 w), ucast (drop_bit 8 w), ucast w]"

fun be_decode :: "32 word \<Rightarrow> bytes \<Rightarrow> 32 word" where
  "be_decode acc [] = acc"
| "be_decode acc (b # bs) = be_decode (push_bit 8 acc OR ucast b) bs"

definition encodeKey :: "byte \<Rightarrow> InstanceID \<Rightarrow> TKey \<Rightarrow> VersionID \<Rightarrow> bool \<Rightarrow> Key" where
  "encodeKey c i tk v t = c # be32 i @ tk @ be32 v @ [if t then 1 else 0]"

definition key_version :: "Key \<Rightarrow> VersionID" where
  "key_version k = be_decode 0 (take 4 (drop (length k - 5) k))"

definition key_tombstone :: "Key \<Rightarrow> bool" where
  "key_tombstone k = (drop (length k - 1) k = [1])"

definition dataKeyClass :: byte where
  "dataKeyClass = 2"

datatype error =
    NilContext
  | BadVersionedContext
  | NilBatch
  | EngineError nat
  | Wrapped string error
  | Failure string

text \<open>
  A versioned context binds a data instance to a version and knows the ancestor path of
  that version (spec, 4.3 and 4.4): \<open>ancestors v = [v, parent v, \<dots>, root]\<close>.
\<close>

record VersionedCtx =
  ctxInstance :: InstanceID
  ctxVersion :: VersionID
  ctxParents :: "VersionID list"

definition ancestors :: "VersionedCtx \<Rightarrow> VersionID list" where
  "ancestors vctx = ctxVersion vctx # ctxParents vctx"

text \<open>
  \<open>storage.Context\<close> is a Go interface. The engine distinguishes a nil context, a
  context that is not versioned (it brings its own \<open>ConstructKey\<close>), a versioned context
  that fulfils \<open>storage.VersionedCtx\<close>, and one that says it is versioned but does not.
\<close>

datatype Context =
    CtxNil
  | CtxUnversioned "TKey \<Rightarrow> Key"
  | CtxVersioned VersionedCtx
  | CtxBadVersioned "TKey \<Rightarrow> Key"

text \<open>
  Modelled from the spec: the key helpers of a versioned context (4.2). A nil context has
  no \<open>ConstructKey\<close>; the engine tests for nil before it asks for a key, and the model
  gives the empty key there.
\<close>

definition DataKey :: "VersionedCtx \<Rightarrow> TKey \<Rightarrow> Key" where
  "DataKey vctx tk = encodeKey dataKeyClass (ctxInstance vctx) tk (ctxVersion vctx) False"

definition TombstoneKey :: "VersionedCtx \<Rightarrow> TKey \<Rightarrow> Key" where
  "TombstoneKey vctx tk = encodeKey dataKeyClass (ctxInstance vctx) tk (ctxVersion vctx) True"

definition MinVersionKey :: "VersionedCtx \<Rightarrow> TKey \<Rightarrow> error + Key" where
  "MinVersionKey vctx tk = Inr (encodeKey dataKeyClass (ctxInstance vctx) tk 0 False)"

definition MaxVersionKey :: "VersionedCtx \<Rightarrow> TKey \<Rightarrow> error + Key" where
  "MaxVersionKey vctx tk = Inr (encodeKey dataKeyClass (ctxInstance vctx) tk 0xFFFFFFFF True)"

fun ConstructKey :: "Context \<Rightarrow> TKey \<Rightarrow> Key" where
  "ConstructKey (CtxVersioned vctx) tk = DataKey vctx tk"
| "ConstructKey (CtxUnversioned f) tk = f tk"
| "ConstructKey (CtxBadVersioned f) tk = f tk"
| "ConstructKey CtxNil tk = []"

fun Versioned :: "Context \<Rightarrow> bool" where
  "Versioned (CtxVersioned vctx) = True"
| "Versioned (CtxBadVersioned f) = True"
| "Versioned _ = False"

definition EmptyValue :: bytes where
  "EmptyValue = []"

subsection \<open>The leveldb store and its write batches\<close>

text \<open>
  The leveldb library is an ordered map from keys to values: a list of pairs, strictly
  ascending by key. A write batch is the list of raw operations in the order they were
  added; \<open>Write\<close> applies them in that order, all or none. The driver's errors are inputs
  of the model: \<open>itError\<close> is what \<open>it.GetError()\<close> answers when an iterator stops being
  valid, \<open>getError\<close> what an unversioned \<open>ldb.Get\<close> answers, and \<open>writeError\<close> says for
  each batch whether writing it fails. \<open>written\<close> keeps the batches written so far, the
  latest last, so that a statement can name the batch a call committed.
\<close>

datatype WriteOp = WPut Key bytes | WDelete Key

type_synonym KeyValue = "Key \<times> bytes"

record LevelDB =
  ldb :: "KeyValue list"
  itError :: "error option"
  getError :: "error option"
  writeError :: "WriteOp list \<Rightarrow> error option"
  written :: "WriteOp list list"

fun ldb_put :: "'k::linorder \<Rightarrow> 'v \<Rightarrow> ('k \<times> 'v) list \<Rightarrow> ('k \<times> 'v) list" where
  "ldb_put k v [] = [(k, v)]"
| "ldb_put k v ((k', v') # kvs) =
     (if k < k' then (k, v) # (k', v') # kvs
      else if k = k' then (k, v) # kvs
      else (k', v') # ldb_put k v kvs)"

fun ldb_delete :: "'k::linorder \<Rightarrow> ('k \<times> 'v) list \<Rightarrow> ('k \<times> 'v) list" where
  "ldb_delete k [] = []"
| "ldb_delete k ((k', v') # kvs) =
     (if k = k' then kvs else (k', v') # ldb_delete k kvs)"

fun apply_op :: "KeyValue list \<Rightarrow> WriteOp \<Rightarrow> KeyValue list" where
  "apply_op kvs (WPut k v) = ldb_put k v kvs"
| "apply_op kvs (WDelete k) = ldb_delete k kvs"

definition ldb_Write :: "LevelDB \<Rightarrow> WriteOp list \<Rightarrow> error option \<times> LevelDB" where
  "ldb_Write db ops =
     (case writeError db ops of
        Some e \<Rightarrow> (Some e, db)
      | None \<Rightarrow> (None, db\<lparr>ldb := foldl apply_op (ldb db) ops, written := written db @ [ops]\<rparr>))"

text \<open>\<open>it.Seek(k)\<close>: the iterator stands at the first entry whose key is not below \<open>k\<close>.\<close>

fun Seek :: "('k::linorder \<times> 'v) list \<Rightarrow> 'k \<Rightarrow> ('k \<times> 'v) list" where
  "Seek [] k = []"
| "Seek ((k', v') # kvs) k = (if k' < k then Seek kvs k else (k', v') # kvs)"

record goBatch =
  bctx :: Context
  bvctx :: "VersionedCtx option"
  WriteBatch :: "WriteOp list"

subsection \<open>Get\<close>

text \<open>
  The loop of \<open>getSingleKeyVersions\<close>: the first argument is what the iterator still has
  to deliver, the last the values collected so far.
\<close>

fun collectVersions :: "('k::linorder \<times> 'v) list \<Rightarrow> error option \<Rightarrow> 'k \<Rightarrow> ('k \<times> 'v) list
    \<Rightarrow> error + ('k \<times> 'v) list" where
  "collectVersions [] err kEnd vals = (case err of None \<Rightarrow> Inr vals | Some e \<Rightarrow> Inl e)"
| "collectVersions ((itKey, itValue) # it) err kEnd vals =
     (if itKey > kEnd then Inr vals
      else collectVersions it err kEnd (vals @ [(itKey, itValue)]))"

definition getSingleKeyVersions :: "LevelDB \<Rightarrow> VersionedCtx \<Rightarrow> TKey \<Rightarrow> error + KeyValue list" where
  "getSingleKeyVersions db vctx k =
     (case MinVersionKey vctx k of
        Inl e \<Rightarrow> Inl e
      | Inr kStart \<Rightarrow>
          (case MaxVersionKey vctx k of
             Inl e \<Rightarrow> Inl e
           | Inr kEnd \<Rightarrow> collectVersions (Seek (ldb db) kStart) (itError db) kEnd []))"

text \<open>
  Modelled from the spec: \<open>VersionedKeyValue\<close> of the versioned context is not part of
  the sources at hand. Spec 4.5: walk \<open>ancestors(V)\<close> from \<open>V\<close> toward the root; for each
  ancestor look up the tombstone at it, then the value at it; the first hit wins, a
  tombstone meaning deleted. No hit at any ancestor means absent. Both deleted and absent
  are the nil key-value. The resolver is handed the key-value pairs of the scan and nothing
  else, so it tells the version and the flag of a pair from the bytes of its key.
\<close>

fun pickVisible :: "VersionID list \<Rightarrow> KeyValue list \<Rightarrow> KeyValue option" where
  "pickVisible [] vals = None"
| "pickVisible (a # as) vals =
     (case find (\<lambda>kv. key_version (fst kv) = a \<and> key_tombstone (fst kv)) vals of
        Some t \<Rightarrow> None
      | None \<Rightarrow>
          (case find (\<lambda>kv. key_version (fst kv) = a \<and> \<not> key_tombstone (fst kv)) vals of
             Some kv \<Rightarrow> Some kv
           | None \<Rightarrow> pickVisible as vals))"

definition VersionedKeyValue :: "VersionedCtx \<Rightarrow> KeyValue list \<Rightarrow> error + KeyValue option" where
  "VersionedKeyValue vctx vals = Inr (pickVisible (ancestors vctx) vals)"

fun LevelDB_Get :: "LevelDB \<Rightarrow> Context \<Rightarrow> TKey \<Rightarrow> error + bytes option" where
  "LevelDB_Get db CtxNil tk = Inl NilContext"
| "LevelDB_Get db (CtxBadVersioned f) tk = Inl BadVersionedContext"
| "LevelDB_Get db (CtxVersioned vctx) tk =
     (case getSingleKeyVersions db vctx tk of
        Inl e \<Rightarrow> Inl e
      | Inr vals \<Rightarrow>
          (case VersionedKeyValue vctx vals of
             Inl e \<Rightarrow> Inl e
           | Inr None \<Rightarrow> Inr None
           | Inr (Some kv) \<Rightarrow> Inr (Some (snd kv))))"
| "LevelDB_Get db (CtxUnversioned f) tk =
     (case getError db of
        Some e \<Rightarrow> Inl e
      | None \<Rightarrow> Inr (map_of (ldb db) (f tk)))"

subsection \<open>Batches\<close>

text \<open>
  \<open>NewBatch\<close> answers nil for a nil context; a batch is therefore an optional value.
  The calls to the statistics channels and the cgo bookkeeping have no effect on the
  store and are left out, as are the driver's log lines.
\<close>

definition NewBatch :: "Context \<Rightarrow> goBatch option" where
  "NewBatch ctx =
     (if ctx = CtxNil then None
      else Some \<lparr>bctx = ctx,
                 bvctx = (case ctx of CtxVersioned vctx \<Rightarrow> Some vctx | _ \<Rightarrow> None),
                 WriteBatch = []\<rparr>)"

fun goBatch_Delete :: "goBatch option \<Rightarrow> TKey \<Rightarrow> goBatch option" where
  "goBatch_Delete None tk = None"
| "goBatch_Delete (Some batch) tk =
     (if bctx batch = CtxNil then Some batch
      else
        let key = ConstructKey (bctx batch) tk;
            ops1 = (case bvctx batch of
                      Some vctx \<Rightarrow> WriteBatch batch @ [WPut (TombstoneKey vctx tk) EmptyValue]
                    | None \<Rightarrow> WriteBatch batch)
        in Some (batch\<lparr>WriteBatch := ops1 @ [WDelete key]\<rparr>))"

fun goBatch_Put :: "goBatch option \<Rightarrow> TKey \<Rightarrow> bytes \<Rightarrow> goBatch option" where
  "goBatch_Put None tk v = None"
| "goBatch_Put (Some batch) tk v =
     (if bctx batch = CtxNil then Some batch
      else
        let key = ConstructKey (bctx batch) tk;
            ops1 = (case bvctx batch of
                      Some vctx \<Rightarrow> WriteBatch batch @ [WDelete (TombstoneKey vctx tk)]
                    | None \<Rightarrow> WriteBatch batch);
            ops2 = ops1 @ [WPut key v]
        in Some (batch\<lparr>WriteBatch := ops2 @ [WPut key v]\<rparr>))"

text \<open>
  \<open>Commit\<close> writes the batch. On a nil batch the source dereferences nil; the model
  answers the error \<open>NilBatch\<close> there. The batches of this development come from
  \<open>NewBatch\<close> on a context that is not nil.
\<close>

fun goBatch_Commit :: "LevelDB \<Rightarrow> goBatch option \<Rightarrow> error option \<times> LevelDB" where
  "goBatch_Commit db None = (Some NilBatch, db)"
| "goBatch_Commit db (Some batch) = ldb_Write db (WriteBatch batch)"

subsection \<open>Put and Delete\<close>

fun LevelDB_Put :: "LevelDB \<Rightarrow> Context \<Rightarrow> TKey \<Rightarrow> bytes \<Rightarrow> error option \<times> LevelDB" where
  "LevelDB_Put db CtxNil tk v = (Some NilContext, db)"
| "LevelDB_Put db (CtxUnversioned f) tk v = ldb_Write db [WPut (f tk) v]"
| "LevelDB_Put db (CtxBadVersioned f) tk v = (Some BadVersionedContext, db)"
| "LevelDB_Put db (CtxVersioned vctx) tk v =
     (let key = ConstructKey (CtxVersioned vctx) tk;
          tombstoneKey = TombstoneKey vctx tk
      in case ldb_Write db [WDelete tombstoneKey, WPut key v] of
           (Some e, db') \<Rightarrow> (Some (Wrapped ''Error on PUT'' e), db')
         | (None, db') \<Rightarrow> (None, db'))"

fun LevelDB_Delete :: "LevelDB \<Rightarrow> Context \<Rightarrow> TKey \<Rightarrow> error option \<times> LevelDB" where
  "LevelDB_Delete db CtxNil tk = (Some NilContext, db)"
| "LevelDB_Delete db (CtxUnversioned f) tk = ldb_Write db [WDelete (f tk)]"
| "LevelDB_Delete db (CtxBadVersioned f) tk = (Some BadVersionedContext, db)"
| "LevelDB_Delete db (CtxVersioned vctx) tk =
     (let key = ConstructKey (CtxVersioned vctx) tk;
          tombstoneKey = TombstoneKey vctx tk
      in case ldb_Write db [WDelete key, WPut tombstoneKey EmptyValue] of
           (Some e, db') \<Rightarrow> (Some (Wrapped ''Error on Delete'' e), db')
         | (None, db') \<Rightarrow> (None, db'))"

section \<open>Label blocks and label indices (labels64)\<close>

subsection \<open>Machine integers, points, runs\<close>

type_synonym label = "64 word"
type_synonym IZYXString = bytes
type_synonym Point3d = "int \<times> int \<times> int"
type_synonym MutID = "64 word"

text \<open>
  Go's \<open>int32\<close> and \<open>int64\<close> are integers with the two's complement wrap-around
  written out.
\<close>

definition i32 :: "int \<Rightarrow> int" where
  "i32 x = (x + 2 ^ 31) mod 2 ^ 32 - 2 ^ 31"

definition i64 :: "int \<Rightarrow> int" where
  "i64 x = (x + 2 ^ 63) mod 2 ^ 64 - 2 ^ 63"

text \<open>Go's \<open>%\<close> truncates toward zero; \<open>>>\<close> on a signed integer is arithmetic.\<close>

definition go_rem :: "int \<Rightarrow> int \<Rightarrow> int" where
  "go_rem a b = a - b * (sgn a * sgn b * (\<bar>a\<bar> div \<bar>b\<bar>))"

definition go_shr :: "int \<Rightarrow> nat \<Rightarrow> int" where
  "go_shr a n = a div 2 ^ n"

record RLE =
  StartPt :: Point3d
  Length :: int

text \<open>
  Modelled from the spec: the point arithmetic of package \<open>dvid\<close> is not part of the
  sources at hand. A block is a tile of \<open>BlockSize\<close> voxels, so the first voxel of the
  block at chunk coordinate \<open>c\<close> is \<open>c * BlockSize\<close>; \<open>Sub\<close> subtracts by component;
  \<open>Prod\<close> is the 64-bit product of the components.
\<close>

definition MinPoint :: "Point3d \<Rightarrow> Point3d \<Rightarrow> Point3d" where
  "MinPoint c sz =
     (case c of (c0, c1, c2) \<Rightarrow> case sz of (s0, s1, s2) \<Rightarrow>
        (i32 (c0 * s0), i32 (c1 * s1), i32 (c2 * s2)))"

definition Sub :: "Point3d \<Rightarrow> Point3d \<Rightarrow> Point3d" where
  "Sub p q =
     (case p of (p0, p1, p2) \<Rightarrow> case q of (q0, q1, q2) \<Rightarrow>
        (i32 (p0 - q0), i32 (p1 - q1), i32 (p2 - q2)))"

definition Prod :: "Point3d \<Rightarrow> int" where
  "Prod sz = (case sz of (s0, s1, s2) \<Rightarrow> i64 (i64 (s0 * s1) * s2))"

fun Value :: "Point3d \<Rightarrow> nat \<Rightarrow> int" where
  "Value (p0, p1, p2) n = (if n = 0 then p0 else if n = 1 then p1 else p2)"

subsection \<open>Little-endian labels in block data\<close>

text \<open>
  \<open>binary.LittleEndian.PutUint64\<close> and \<open>Uint64\<close> of Go's standard library, and their
  use on the slice \<open>data[i:i+8]\<close>. The model keeps no capacity beyond the length of a
  slice; a function that slices checks its bounds where the checks of the source around
  it do not already imply them.
\<close>

definition le64 :: "64 word \<Rightarrow> bytes" where
  "le64 v = map (\<lambda>i. ucast (drop_bit (8 * i) v)) [0..<8]"

fun le_decode :: "bytes \<Rightarrow> 64 word" where
  "le_decode [] = 0"
| "le_decode (b # bs) = ucast b OR push_bit 8 (le_decode bs)"

definition Uint64 :: "bytes \<Rightarrow> nat \<Rightarrow> 64 word" where
  "Uint64 data i = le_decode (take 8 (drop i data))"

definition PutUint64 :: "bytes \<Rightarrow> nat \<Rightarrow> 64 word \<Rightarrow> bytes" where
  "PutUint64 data i v = take i data @ le64 v @ drop (i + 8) data"

subsection \<open>Label metadata, operations, events\<close>

record Meta =
  Voxels :: "64 word"
  Blocks :: "IZYXString list"

text \<open>
  \<open>Merged\<close> is a Go set of labels (a map); the list gives its members in the order a
  \<open>range\<close> loop visits them, and membership is membership in the list.
\<close>

record MergeOp =
  Target :: label
  Merged :: "label list"

record DeltaMerge =
  dmMergeOp :: MergeOp
  dmBlocks :: "IZYXString list"
  TargetVoxels :: "64 word"
  MergedVoxels :: "64 word"

text \<open>
  \<open>Split\<close> is a Go map from block to the runs in it, nil for a coarse split; the list
  gives its entries in the order the \<open>range\<close> loop visits them.
\<close>

record DeltaSplit =
  OldLabel :: label
  NewLabel :: label
  Split :: "(IZYXString \<times> RLE list) list option"
  SortedBlocks :: "IZYXString list"
  SplitVoxels :: "64 word"

record mergeOp =
  m_mutID :: MutID
  m_MergeOp :: MergeOp
  m_block :: IZYXString

record splitOp =
  s_mutID :: MutID
  oldLabel :: label
  newLabel :: label
  rles :: "RLE list option"
  s_block :: IZYXString

datatype procOp = OpMerge mergeOp | OpSplit splitOp | OpOther

type_synonym procMsg = "procOp \<times> VersionID"

datatype SizeDelta =
    DeltaNewSize label "64 word"
  | DeltaModSize label "64 word"
  | DeltaReplaceSize label "64 word" "64 word"

datatype SyncEvent =
    MergeStartEvent MergeOp
  | MergeBlockEvent DeltaMerge
  | MergeEndEvent MergeOp
  | SplitStartEvent label label
  | SplitLabelEvent DeltaSplit
  | SplitEndEvent label label
  | ChangeSizeEvent SizeDelta
  | BlockChange MutID IZYXString bytes
  | DownresCommit MutID

text \<open>
  A line of the log is kept with its level and the constant part of its format string, up
  to the first format verb; \<open>can't\<close> is spelled \<open>cannot\<close>.
\<close>

datatype LogLine = Errorf string | Criticalf string

text \<open>
  The helpers of other packages that the label code calls and that are not part of the
  sources at hand are parameters of the model: the serialisation of a label index entry,
  the serialisation and compression of a block, the coding of block coordinates, the
  type-keys of index entries and blocks, and the partition of runs by block.
\<close>

record Codec =
  MarshalBinary :: "Meta \<Rightarrow> error + bytes"
  UnmarshalBinary :: "bytes \<Rightarrow> error + Meta"
  SerializeData :: "bytes \<Rightarrow> error + bytes"
  DeserializeData :: "bytes \<Rightarrow> error + bytes"
  Decompress :: "bytes \<Rightarrow> error + bytes"
  ToChunkPoint3d :: "IZYXString \<Rightarrow> error + Point3d"
  ToIZYXString :: "Point3d \<Rightarrow> IZYXString"
  NewLabelIndexTKey :: "label \<Rightarrow> TKey"
  NewBlockTKeyByCoord :: "IZYXString \<Rightarrow> TKey"
  Partition :: "RLE list \<Rightarrow> Point3d \<Rightarrow> error + (IZYXString \<times> RLE list) list"

text \<open>
  The state of a data instance and of what it talks to. Goroutines are run to completion
  in the order they are started: \<open>mutateCh\<close> holds the messages sent to the block handlers
  and not yet handled, \<open>deleteBlkCh\<close> the blocks a fine split reports as emptied of the old
  label. \<open>mutcache\<close> counts, for each mutation id, the messages not yet done. The failures of
  collaborators are inputs: \<open>storeError\<close> (no store), \<open>isBatcher\<close>, \<open>notifyError\<close> (a
  subscriber refuses an event), \<open>startError\<close> (the labels are dirty), \<open>newLabelError\<close>.
\<close>

record Data =
  codec :: Codec
  instanceID :: InstanceID
  versionParents :: "VersionID \<Rightarrow> VersionID list"
  BlockSize :: Point3d
  store :: LevelDB
  storeError :: "error option"
  isBatcher :: bool
  notifyError :: "SyncEvent \<Rightarrow> error option"
  startError :: "error option"
  newLabelError :: "error option"
  MaxLabel :: label
  mutationID :: MutID
  mutcache :: "MutID \<Rightarrow> int"
  updating :: int
  mutateCh :: "procMsg list"
  deleteBlkCh :: "IZYXString list"
  events :: "SyncEvent list"
  logs :: "LogLine list"
  panicked :: bool

definition NewVersionedCtx :: "Data \<Rightarrow> VersionID \<Rightarrow> VersionedCtx" where
  "NewVersionedCtx d v =
     \<lparr>ctxInstance = instanceID d, ctxVersion = v, ctxParents = versionParents d v\<rparr>"

definition logLine :: "Data \<Rightarrow> LogLine \<Rightarrow> Data" where
  "logLine d l = d\<lparr>logs := logs d @ [l]\<rparr>"

definition NotifySubscribers :: "Data \<Rightarrow> SyncEvent \<Rightarrow> error option \<times> Data" where
  "NotifySubscribers d evt =
     (case notifyError d evt of
        Some e \<Rightarrow> (Some e, d)
      | None \<Rightarrow> (None, d\<lparr>events := events d @ [evt]\<rparr>))"

definition publishBlockChange :: "Data \<Rightarrow> MutID \<Rightarrow> IZYXString \<Rightarrow> bytes \<Rightarrow> Data" where
  "publishBlockChange d mutID blk blockData = d\<lparr>events := events d @ [BlockChange mutID blk blockData]\<rparr>"

definition publishDownresCommit :: "Data \<Rightarrow> MutID \<Rightarrow> Data" where
  "publishDownresCommit d mutID = d\<lparr>events := events d @ [DownresCommit mutID]\<rparr>"

definition StartUpdate :: "Data \<Rightarrow> Data" where
  "StartUpdate d = d\<lparr>updating := updating d + 1\<rparr>"

definition StopUpdate :: "Data \<Rightarrow> Data" where
  "StopUpdate d = d\<lparr>updating := updating d - 1\<rparr>"

definition NewMutationID :: "Data \<Rightarrow> MutID \<times> Data" where
  "NewMutationID d = (mutationID d + 1, d\<lparr>mutationID := mutationID d + 1\<rparr>)"

definition Data_NewLabel :: "Data \<Rightarrow> label \<times> error option \<times> Data" where
  "Data_NewLabel d =
     (case newLabelError d of
        Some e \<Rightarrow> (0, Some e, d)
      | None \<Rightarrow> (MaxLabel d + 1, None, d\<lparr>MaxLabel := MaxLabel d + 1\<rparr>))"

text \<open>
  Modelled from the spec: the wait group of a mutation (4.7) is not part of the sources at
  hand. \<open>MutAdd\<close> counts a message in, \<open>MutDone\<close> counts it out, \<open>MutDelete\<close> forgets
  the group; the coordinator's \<open>MutWait\<close> returns once the count is zero.
\<close>

definition MutAdd :: "Data \<Rightarrow> MutID \<Rightarrow> Data" where
  "MutAdd d mutID = d\<lparr>mutcache := (mutcache d)(mutID := mutcache d mutID + 1)\<rparr>"

definition MutDone :: "Data \<Rightarrow> MutID \<Rightarrow> Data" where
  "MutDone d mutID = d\<lparr>mutcache := (mutcache d)(mutID := mutcache d mutID - 1)\<rparr>"

definition MutDelete :: "Data \<Rightarrow> MutID \<Rightarrow> Data" where
  "MutDelete d mutID = d\<lparr>mutcache := (mutcache d)(mutID := 0)\<rparr>"

subsection \<open>Block lists and label metadata\<close>

text \<open>
  Modelled from the spec: the methods of \<open>IZYXSlice\<close> and \<open>GetLabelMeta\<close> are not part of
  the sources at hand. Spec 4.6: \<open>merge\<close> is a sorted-set union and \<open>split\<close> a sorted-set
  difference, both linear on sorted inputs and keeping the ascending order; the metadata
  of a set of labels is loaded label by label, the voxel counts added up and the block
  lists united (4.8, step 2). A label without an index entry contributes nothing.
\<close>

fun IZYXSlice_Merge :: "IZYXString list \<Rightarrow> IZYXString list \<Rightarrow> IZYXString list" where
  "IZYXSlice_Merge [] ys = ys"
| "IZYXSlice_Merge xs [] = xs"
| "IZYXSlice_Merge (x # xs) (y # ys) =
     (if x < y then x # IZYXSlice_Merge xs (y # ys)
      else if x = y then x # IZYXSlice_Merge xs ys
      else y # IZYXSlice_Merge (x # xs) ys)"

fun IZYXSlice_Split :: "IZYXString list \<Rightarrow> IZYXString list \<Rightarrow> error + IZYXString list" where
  "IZYXSlice_Split [] rm = Inr []"
| "IZYXSlice_Split xs [] = Inr xs"
| "IZYXSlice_Split (x # xs) (r # rm) =
     (if x < r then (case IZYXSlice_Split xs (r # rm) of Inl e \<Rightarrow> Inl e | Inr zs \<Rightarrow> Inr (x # zs))
      else if x = r then IZYXSlice_Split xs rm
      else IZYXSlice_Split (x # xs) rm)"

fun GetLabelMeta_loop :: "Data \<Rightarrow> VersionedCtx \<Rightarrow> label list \<Rightarrow> Meta \<Rightarrow> error + Meta" where
  "GetLabelMeta_loop d ctx [] meta = Inr meta"
| "GetLabelMeta_loop d ctx (l # ls) meta =
     (case LevelDB_Get (store d) (CtxVersioned ctx) (NewLabelIndexTKey (codec d) l) of
        Inl e \<Rightarrow> Inl e
      | Inr None \<Rightarrow> GetLabelMeta_loop d ctx ls meta
      | Inr (Some val) \<Rightarrow>
          (case UnmarshalBinary (codec d) val of
             Inl e \<Rightarrow> Inl e
           | Inr m \<Rightarrow>
               GetLabelMeta_loop d ctx ls
                 \<lparr>Voxels = Voxels meta + Voxels m,
                  Blocks = IZYXSlice_Merge (Blocks meta) (Blocks m)\<rparr>))"

definition GetLabelMeta :: "Data \<Rightarrow> VersionedCtx \<Rightarrow> label list \<Rightarrow> error + Meta" where
  "GetLabelMeta d ctx ls =
     (case storeError d of
        Some e \<Rightarrow> Inl e
      | None \<Rightarrow> GetLabelMeta_loop d ctx ls \<lparr>Voxels = 0, Blocks = []\<rparr>)"

text \<open>Modelled from the spec (glossary): a run is a start point and a length along X.\<close>

definition Stats :: "RLE list \<Rightarrow> 64 word \<times> int" where
  "Stats rs = (foldl (\<lambda>n r. n + word_of_int (Length r)) 0 rs, i32 (int (length rs)))"

subsection \<open>Relabelling a block\<close>

datatype 'a result = Ok 'a | Err error | Panicked

text \<open>The loop of \<open>mergeBlock\<close> over the labels of a block.\<close>

function mergeLoop :: "label list \<Rightarrow> label \<Rightarrow> bytes \<Rightarrow> nat \<Rightarrow> nat \<Rightarrow> bytes" where
  "mergeLoop merged target blockData blockBytes i =
     (if i < blockBytes then
        (if Uint64 blockData i \<in> set merged
         then mergeLoop merged target (PutUint64 blockData i target) blockBytes (i + 8)
         else mergeLoop merged target blockData blockBytes (i + 8))
      else blockData)"
  by pat_completeness auto
termination
  by (relation "measure (\<lambda>(merged, target, blockData, blockBytes, i). blockBytes - i)") auto

declare mergeLoop.simps [simp del]

function replaceLoop :: "bytes \<Rightarrow> label \<Rightarrow> label \<Rightarrow> nat \<Rightarrow> nat \<Rightarrow> 64 word \<Rightarrow> bytes \<times> 64 word" where
  "replaceLoop data fromLabel toLabel n i splitVoxels =
     (if i < n then
        (if Uint64 data i = fromLabel
         then replaceLoop (PutUint64 data i toLabel) fromLabel toLabel n (i + 8) (splitVoxels + 1)
         else replaceLoop data fromLabel toLabel n (i + 8) splitVoxels)
      else (data, splitVoxels))"
  by pat_completeness auto
termination
  by (relation "measure (\<lambda>(data, fromLabel, toLabel, n, i, splitVoxels). n - i)") auto

declare replaceLoop.simps [simp del]

definition replaceLabel :: "bytes \<Rightarrow> label \<Rightarrow> label \<Rightarrow> (bytes \<times> 64 word) result" where
  "replaceLabel data fromLabel toLabel =
     (let n = length data in
      if n mod 8 \<noteq> 0 then Err (Failure ''label data in block not aligned to uint64'')
      else Ok (replaceLoop data fromLabel toLabel n 0 0))"

text \<open>
  The inner loop of \<open>splitLabel\<close>: \<open>n\<close> voxels from byte offset \<open>i\<close> on get the new label.
  \<open>data[i:i+8]\<close> with \<open>i\<close> an \<open>int32\<close> panics unless \<open>0 \<le> i \<le> i+8 \<le> len(data)\<close>.
\<close>

fun putRun :: "bytes \<Rightarrow> int \<Rightarrow> nat \<Rightarrow> label \<Rightarrow> 64 word \<Rightarrow> (bytes \<times> 64 word) option" where
  "putRun data i 0 l splitVoxels = Some (data, splitVoxels)"
| "putRun data i (Suc n) l splitVoxels =
     (if 0 \<le> i \<and> i \<le> i32 (i + 8) \<and> i32 (i + 8) \<le> int (length data)
      then putRun (PutUint64 data (nat i) l) (i32 (i + 8)) n l (splitVoxels + 1)
      else None)"

definition rleOffset :: "Point3d \<Rightarrow> int \<Rightarrow> int \<Rightarrow> RLE \<Rightarrow> int" where
  "rleOffset offset nx nxy rle =
     (let p = Sub (StartPt rle) offset
      in i32 (i32 (i32 (Value p 2 * nxy) + i32 (Value p 1 * nx)) + i32 (Value p 0 * 8)))"

fun putRuns :: "bytes \<Rightarrow> RLE list \<Rightarrow> Point3d \<Rightarrow> int \<Rightarrow> int \<Rightarrow> label \<Rightarrow> 64 word
    \<Rightarrow> (bytes \<times> 64 word) option" where
  "putRuns data [] offset nx nxy l splitVoxels = Some (data, splitVoxels)"
| "putRuns data (rle # rs) offset nx nxy l splitVoxels =
     (case putRun data (rleOffset offset nx nxy rle) (nat (Length rle)) l splitVoxels of
        None \<Rightarrow> None
      | Some (data', splitVoxels') \<Rightarrow> putRuns data' rs offset nx nxy l splitVoxels')"

function oldRemainsLoop :: "bytes \<Rightarrow> label \<Rightarrow> nat \<Rightarrow> bool option" where
  "oldRemainsLoop data old i =
     (if i < length data then
        (if length data < i + 8 then None
         else if Uint64 data i = old then Some True
         else oldRemainsLoop data old (i + 8))
      else Some False)"
  by pat_completeness auto
termination
  by (relation "measure (\<lambda>(data, old, i). length data - i)") auto

declare oldRemainsLoop.simps [simp del]

definition splitLabel :: "Data \<Rightarrow> bytes \<Rightarrow> splitOp \<Rightarrow> (bytes \<times> 64 word \<times> bool) result" where
  "splitLabel d data op =
     (case ToChunkPoint3d (codec d) (s_block op) of
        Inl e \<Rightarrow> Err e
      | Inr bcoord \<Rightarrow>
          let blockSize = BlockSize d;
              offset = MinPoint bcoord blockSize;
              nx = i32 (Value blockSize 0 * 8);
              nxy = i32 (nx * Value blockSize 1)
          in case putRuns data (case rles op of None \<Rightarrow> [] | Some rs \<Rightarrow> rs)
                    offset nx nxy (newLabel op) 0 of
               None \<Rightarrow> Panicked
             | Some (data', splitVoxels) \<Rightarrow>
                 (case oldRemainsLoop data' (oldLabel op) 0 of
                    None \<Rightarrow> Panicked
                  | Some oldRemains \<Rightarrow> Ok (data', splitVoxels, oldRemains)))"

subsection \<open>The block handlers\<close>

definition blockBytesOf :: "Data \<Rightarrow> int" where
  "blockBytesOf d = i64 (Prod (BlockSize d) * 8)"

definition mergeBlock_body :: "Data \<Rightarrow> VersionedCtx \<Rightarrow> mergeOp \<Rightarrow> Data" where
  "mergeBlock_body d ctx op =
     (case storeError d of
        Some e \<Rightarrow> logLine d (Errorf ''Data type labelblk had error initializing store'')
      | None \<Rightarrow>
          let tk = NewBlockTKeyByCoord (codec d) (m_block op)
          in case LevelDB_Get (store d) (CtxVersioned ctx) tk of
               Inl e \<Rightarrow> logLine d (Errorf ''Error on GET of labelblk'')
             | Inr None \<Rightarrow> logLine d (Errorf ''nil label block where merge was done!'')
             | Inr (Some data) \<Rightarrow>
                 (case DeserializeData (codec d) data of
                    Inl e \<Rightarrow> logLine d (Criticalf ''unable to deserialize label block'')
                  | Inr compressed \<Rightarrow>
                      (case Decompress (codec d) compressed of
                         Inl e \<Rightarrow> logLine d (Errorf ''Unable to decompress google compression'')
                       | Inr blockData \<Rightarrow>
                           let blockBytes = blockBytesOf d
                           in if int (length blockData) \<noteq> blockBytes
                              then logLine d (Criticalf ''After labelblk deserialization got back wrong number of bytes'')
                              else
                                let blockData' = mergeLoop (Merged (m_MergeOp op)) (Target (m_MergeOp op))
                                                   blockData (nat blockBytes) 0
                                in case SerializeData (codec d) blockData' of
                                     Inl e \<Rightarrow> logLine d (Criticalf ''Unable to serialize block'')
                                   | Inr serialization \<Rightarrow>
                                       (case LevelDB_Put (store d) (CtxVersioned ctx) tk serialization of
                                          (perr, db') \<Rightarrow>
                                            let d1 = d\<lparr>store := db'\<rparr>;
                                                d2 = (case perr of
                                                        Some e \<Rightarrow> logLine d1 (Errorf ''Error in putting key'')
                                                      | None \<Rightarrow> d1)
                                            in publishBlockChange d2 (m_mutID op) (m_block op) blockData'))))"

text \<open>\<open>defer d.MutDone(op.mutID)\<close>: the count goes down however the body is left.\<close>

definition mergeBlock :: "Data \<Rightarrow> VersionedCtx \<Rightarrow> mergeOp \<Rightarrow> Data" where
  "mergeBlock d ctx op = MutDone (mergeBlock_body d ctx op) (m_mutID op)"

definition notifyOrLog :: "Data \<Rightarrow> SyncEvent \<Rightarrow> LogLine \<Rightarrow> Data" where
  "notifyOrLog d evt l =
     (case NotifySubscribers d evt of
        (Some e, d') \<Rightarrow> logLine d' l
      | (None, d') \<Rightarrow> d')"

definition storeBlock :: "Data \<Rightarrow> VersionedCtx \<Rightarrow> splitOp \<Rightarrow> TKey \<Rightarrow> bytes \<Rightarrow> Data" where
  "storeBlock d ctx op tk blockData =
     (case SerializeData (codec d) blockData of
        Inl e \<Rightarrow> logLine d (Criticalf ''Unable to serialize block'')
      | Inr serialization \<Rightarrow>
          (case LevelDB_Put (store d) (CtxVersioned ctx) tk serialization of
             (perr, db') \<Rightarrow>
               let d1 = d\<lparr>store := db'\<rparr>;
                   d2 = (case perr of
                           Some e \<Rightarrow> logLine d1 (Errorf ''Error in putting key'')
                         | None \<Rightarrow> d1)
               in publishBlockChange d2 (s_mutID op) (s_block op) blockData))"

definition splitBlock_body :: "Data \<Rightarrow> VersionedCtx \<Rightarrow> splitOp \<Rightarrow> Data" where
  "splitBlock_body d ctx op =
     (case storeError d of
        Some e \<Rightarrow> logLine d (Errorf ''Data type labelblk had error initializing store'')
      | None \<Rightarrow>
          let tk = NewBlockTKeyByCoord (codec d) (s_block op)
          in case LevelDB_Get (store d) (CtxVersioned ctx) tk of
               Inl e \<Rightarrow> logLine d (Errorf ''Error on GET of labelblk'')
             | Inr None \<Rightarrow> logLine d (Errorf ''nil label block where split was done'')
             | Inr (Some data) \<Rightarrow>
                 (case DeserializeData (codec d) data of
                    Inl e \<Rightarrow> logLine d (Criticalf ''unable to deserialize label block'')
                  | Inr compressed \<Rightarrow>
                      (case Decompress (codec d) compressed of
                         Inl e \<Rightarrow> logLine d (Errorf ''Unable to decompress google compression'')
                       | Inr blockData \<Rightarrow>
                           if int (length blockData) \<noteq> blockBytesOf d
                           then logLine d (Criticalf ''splitBlock: got back wrong number of bytes'')
                           else if rles op \<noteq> None then
                             (case splitLabel d blockData op of
                                Panicked \<Rightarrow> d\<lparr>panicked := True\<rparr>
                              | Err e \<Rightarrow> logLine d (Errorf ''cannot store label RLEs into block'')
                              | Ok (blockData', toLabelSize, oldRemains) \<Rightarrow>
                                  let d1 = (if \<not> oldRemains
                                            then d\<lparr>deleteBlkCh := deleteBlkCh d @ [s_block op]\<rparr>
                                            else d)
                                  in storeBlock d1 ctx op tk blockData')
                           else
                             (case replaceLabel blockData (oldLabel op) (newLabel op) of
                                Panicked \<Rightarrow> d\<lparr>panicked := True\<rparr>
                              | Err e \<Rightarrow> logLine d (Errorf ''cannot replace label in block'')
                              | Ok (blockData', toLabelSize) \<Rightarrow>
                                  let d1 = notifyOrLog d (ChangeSizeEvent (DeltaNewSize (newLabel op) toLabelSize))
                                             (Criticalf ''Unable to notify subscribers'');
                                      d2 = notifyOrLog d1 (ChangeSizeEvent (DeltaModSize (oldLabel op) (- toLabelSize)))
                                             (Criticalf ''Unable to notify subscribers'')
                                  in storeBlock d2 ctx op tk blockData'))))"

definition splitBlock :: "Data \<Rightarrow> VersionedCtx \<Rightarrow> splitOp \<Rightarrow> Data" where
  "splitBlock d ctx op = MutDone (splitBlock_body d ctx op) (s_mutID op)"

text \<open>One turn of the loop of \<open>mutateBlock\<close>: a message is taken and handled by its type.\<close>

fun mutateBlock :: "Data \<Rightarrow> procMsg \<Rightarrow> Data" where
  "mutateBlock d (OpMerge op, v) = mergeBlock d (NewVersionedCtx d v) op"
| "mutateBlock d (OpSplit op, v) = splitBlock d (NewVersionedCtx d v) op"
| "mutateBlock d (OpOther, v) = logLine d (Criticalf ''Received unknown processing msg in mutateBlock'')"

text \<open>
  The handlers take the messages in the order they were sent; a panic in a handler ends
  the process, and the messages behind it stay unhandled.
\<close>

fun handleAll :: "Data \<Rightarrow> procMsg list \<Rightarrow> Data" where
  "handleAll d [] = d"
| "handleAll d (msg # msgs) =
     (if panicked d then d\<lparr>mutateCh := msg # msgs\<rparr>
      else handleAll (mutateBlock d msg) msgs)"

datatype 'a outcome = Return 'a | Blocked | Crash

text \<open>
  Modelled from the spec: \<open>MutWait\<close> blocks until the wait group of the mutation is at
  zero. By then the handlers have taken every message sent so far.
\<close>

definition MutWait :: "Data \<Rightarrow> MutID \<Rightarrow> unit outcome \<times> Data" where
  "MutWait d mutID =
     (let d' = handleAll (d\<lparr>mutateCh := []\<rparr>) (mutateCh d)
      in if panicked d' then (Crash, d')
         else if mutcache d' mutID = 0 then (Return (), d')
         else (Blocked, d'))"

definition send :: "Data \<Rightarrow> procMsg \<Rightarrow> Data" where
  "send d msg = d\<lparr>mutateCh := mutateCh d @ [msg]\<rparr>"

subsection \<open>Merge\<close>

fun dispatchMerge :: "Data \<Rightarrow> VersionID \<Rightarrow> MutID \<Rightarrow> MergeOp \<Rightarrow> IZYXString list \<Rightarrow> Data" where
  "dispatchMerge d v mutID mop [] = d"
| "dispatchMerge d v mutID mop (izyx # blocks) =
     (let d1 = MutAdd d mutID;
          op = \<lparr>m_mutID = mutID, m_MergeOp = mop, m_block = izyx\<rparr>
      in dispatchMerge (send d1 (OpMerge op, v)) v mutID mop blocks)"

definition mergeIndexBatch :: "Data \<Rightarrow> VersionID \<Rightarrow> DeltaMerge \<Rightarrow> bytes \<Rightarrow> goBatch option" where
  "mergeIndexBatch d v delta data =
     (let ctx = NewVersionedCtx d v;
          batch = NewBatch (CtxVersioned ctx);
          batch1 = goBatch_Put batch (NewLabelIndexTKey (codec d) (Target (dmMergeOp delta))) data
      in foldl (\<lambda>b merged. goBatch_Delete b (NewLabelIndexTKey (codec d) merged))
           batch1 (Merged (dmMergeOp delta)))"

definition processMerge :: "Data \<Rightarrow> VersionID \<Rightarrow> DeltaMerge \<Rightarrow> error option outcome \<times> Data" where
  "processMerge d v delta =
     (case NotifySubscribers d (MergeBlockEvent delta) of
        (Some e, d0) \<Rightarrow> (Return (Some (Wrapped ''cannot notify subscribers for event'' e)), d0)
      | (None, d0) \<Rightarrow>
          (case NewMutationID d0 of
             (mutID, d1) \<Rightarrow>
               (case MutWait (dispatchMerge d1 v mutID (dmMergeOp delta) (dmBlocks delta)) mutID of
                  (Blocked, d2) \<Rightarrow> (Blocked, d2)
                | (Crash, d2) \<Rightarrow> (Crash, d2)
                | (Return u, d2) \<Rightarrow>
                    let d3 = MutDelete d2 mutID
                    in case storeError d3 of
                         Some e \<Rightarrow> (Return (Some (Wrapped ''merge had error initializing store'' e)), d3)
                       | None \<Rightarrow>
                           if \<not> isBatcher d3
                           then (Return (Some (Failure ''merge requires batch-enabled store'')), d3)
                           else
                             let meta = \<lparr>Voxels = TargetVoxels delta + MergedVoxels delta,
                                         Blocks = dmBlocks delta\<rparr>
                             in case MarshalBinary (codec d3) meta of
                                  Inl e \<Rightarrow> (Return (Some (Wrapped ''Unable to serialize label meta for merge'' e)), d3)
                                | Inr data \<Rightarrow>
                                    (case goBatch_Commit (store d3) (mergeIndexBatch d3 v delta data) of
                                       (Some e, db') \<Rightarrow>
                                         (Return (Some (Wrapped ''Error on commiting block indices'' e)),
                                          d3\<lparr>store := db'\<rparr>)
                                     | (None, db') \<Rightarrow>
                                         let d4 = d3\<lparr>store := db'\<rparr>;
                                             deltaRep = DeltaReplaceSize (Target (dmMergeOp delta))
                                                          (TargetVoxels delta)
                                                          (TargetVoxels delta + MergedVoxels delta);
                                             d5 = notifyOrLog d4 (ChangeSizeEvent deltaRep)
                                                    (Errorf ''cannot notify subscribers for event'');
                                             d6 = notifyOrLog d5 (MergeEndEvent (dmMergeOp delta))
                                                    (Errorf ''cannot notify subscribers for event'')
                                         in (Return None, publishDownresCommit d6 mutID)))))"

text \<open>
  The goroutine that \<open>MergeLabels\<close> starts. Its result is not handed to anyone in the
  source; the model returns, next to the state, the error it came across if any.
\<close>

definition mergeTask :: "Data \<Rightarrow> VersionID \<Rightarrow> MergeOp \<Rightarrow> error option outcome \<times> Data" where
  "mergeTask d v op =
     (let ctx = NewVersionedCtx d v
      in case GetLabelMeta d ctx [Target op] of
           Inl e \<Rightarrow> (Return (Some e),
                      StopUpdate (logLine d (Errorf ''cannot get block indices of to merge target label'')))
         | Inr targetMeta \<Rightarrow>
             (case GetLabelMeta d ctx (Merged op) of
                Inl e \<Rightarrow> (Return (Some e),
                           StopUpdate (logLine d (Errorf ''cannot get block indices of to merge labels'')))
              | Inr mergedMeta \<Rightarrow>
                  let delta = \<lparr>dmMergeOp = op,
                               dmBlocks = IZYXSlice_Merge (Blocks targetMeta) (Blocks mergedMeta),
                               TargetVoxels = Voxels targetMeta,
                               MergedVoxels = Voxels mergedMeta\<rparr>
                  in case processMerge d v delta of
                       (Return (Some e), d') \<Rightarrow>
                         (Return (Some e), StopUpdate (logLine d' (Criticalf ''unable to process merge'')))
                     | (Return None, d') \<Rightarrow> (Return None, StopUpdate d')
                     | (Blocked, d') \<Rightarrow> (Blocked, d')
                     | (Crash, d') \<Rightarrow> (Crash, d')))"

definition MergeLabels :: "Data \<Rightarrow> VersionID \<Rightarrow> MergeOp \<Rightarrow> error option \<times> Data" where
  "MergeLabels d v op =
     (let d1 = StartUpdate d
      in case startError d1 of
           Some e \<Rightarrow> (Some e, d1)
         | None \<Rightarrow>
             (case NotifySubscribers d1 (MergeStartEvent op) of
                (Some e, d2) \<Rightarrow> (Some e, StopUpdate d2)
              | (None, d2) \<Rightarrow> (None, snd (mergeTask d2 v op))))"

subsection \<open>Split\<close>

fun dispatchCoarse :: "Data \<Rightarrow> VersionID \<Rightarrow> MutID \<Rightarrow> DeltaSplit \<Rightarrow> IZYXString list \<Rightarrow> Data" where
  "dispatchCoarse d v mutID delta [] = d"
| "dispatchCoarse d v mutID delta (izyx # blocks) =
     (let d1 = MutAdd d mutID;
          op = \<lparr>s_mutID = mutID, oldLabel = OldLabel delta, newLabel = NewLabel delta,
                rles = None, s_block = izyx\<rparr>
      in dispatchCoarse (send d1 (OpSplit op, v)) v mutID delta blocks)"

fun dispatchFine :: "Data \<Rightarrow> VersionID \<Rightarrow> MutID \<Rightarrow> DeltaSplit \<Rightarrow> (IZYXString \<times> RLE list) list \<Rightarrow> Data" where
  "dispatchFine d v mutID delta [] = d"
| "dispatchFine d v mutID delta ((izyx, blockRLEs) # rest) =
     (let d1 = MutAdd d mutID;
          op = \<lparr>s_mutID = mutID, oldLabel = OldLabel delta, newLabel = NewLabel delta,
                rles = Some blockRLEs, s_block = izyx\<rparr>
      in dispatchFine (send d1 (OpSplit op, v)) v mutID delta rest)"

text \<open>
  \<open>splitIndices\<close>. The source sets the fields of \<open>meta\<close> for the new label after \<open>data\<close>
  was serialised and puts \<open>data\<close> again.
\<close>

definition splitIndices :: "Data \<Rightarrow> VersionID \<Rightarrow> DeltaSplit \<Rightarrow> IZYXString list \<Rightarrow> error option \<times> Data" where
  "splitIndices d v delta deleteBlks =
     (case storeError d of
        Some e \<Rightarrow> (Some (Wrapped ''merge had error initializing store'' e), d)
      | None \<Rightarrow>
          if \<not> isBatcher d then (Some (Failure ''merge requires batch-enabled store''), d)
          else
            let ctx = NewVersionedCtx d v;
                batch = NewBatch (CtxVersioned ctx)
            in case GetLabelMeta d ctx [OldLabel delta] of
                 Inl e \<Rightarrow> (Some (Wrapped ''unable to get block indices for label'' e), d)
               | Inr meta \<Rightarrow>
                   (case IZYXSlice_Split (Blocks meta) deleteBlks of
                      Inl e \<Rightarrow> (Some (Wrapped ''unable to split deleted blocks for label'' e), d)
                    | Inr blocks \<Rightarrow>
                        let meta1 = meta\<lparr>Voxels := Voxels meta - SplitVoxels delta, Blocks := blocks\<rparr>
                        in case MarshalBinary (codec d) meta1 of
                             Inl e \<Rightarrow> (Some (Wrapped ''unable to serialize block indices for split of label'' e), d)
                           | Inr data \<Rightarrow>
                               let batch1 = goBatch_Put batch (NewLabelIndexTKey (codec d) (OldLabel delta)) data;
                                   meta2 = meta1\<lparr>Voxels := SplitVoxels delta, Blocks := SortedBlocks delta\<rparr>;
                                   batch2 = goBatch_Put batch1 (NewLabelIndexTKey (codec d) (NewLabel delta)) data
                               in case goBatch_Commit (store d) batch2 of
                                    (Some e, db') \<Rightarrow>
                                      (Some (Wrapped ''Error on commiting block indices for split of label'' e),
                                       d\<lparr>store := db'\<rparr>)
                                  | (None, db') \<Rightarrow> (None, d\<lparr>store := db'\<rparr>)))"

definition processSplit :: "Data \<Rightarrow> VersionID \<Rightarrow> DeltaSplit \<Rightarrow> error option outcome \<times> Data" where
  "processSplit d v delta =
     (case NewMutationID (StartUpdate d) of
        (mutID, d1) \<Rightarrow>
          let d2 = (case Split delta of
                      None \<Rightarrow> dispatchCoarse d1 v mutID delta (SortedBlocks delta)
                    | Some splitmap \<Rightarrow>
                        let d3 = dispatchFine (d1\<lparr>deleteBlkCh := []\<rparr>) v mutID delta splitmap;
                            d4 = notifyOrLog d3 (ChangeSizeEvent (DeltaNewSize (NewLabel delta) (SplitVoxels delta)))
                                   (Errorf ''cannot notify subscribers for event'')
                        in notifyOrLog d4 (ChangeSizeEvent (DeltaModSize (OldLabel delta) (- SplitVoxels delta)))
                             (Errorf ''cannot notify subscribers for event''))
          in case MutWait d2 mutID of
               (Blocked, d5) \<Rightarrow> (Blocked, d5)
             | (Crash, d5) \<Rightarrow> (Crash, d5)
             | (Return u, d5) \<Rightarrow>
                 let d6 = MutDelete d5 mutID;
                     deleteBlks = (case Split delta of
                                     None \<Rightarrow> SortedBlocks delta
                                   | Some splitmap \<Rightarrow> deleteBlkCh d6)
                 in case splitIndices d6 v delta deleteBlks of
                      (Some e, d7) \<Rightarrow> (Return (Some e), d7)
                    | (None, d7) \<Rightarrow>
                        let d8 = StopUpdate d7;
                            d9 = notifyOrLog d8 (SplitLabelEvent delta)
                                   (Errorf ''cannot notify subscribers for event'')
                        in case NotifySubscribers d9 (SplitEndEvent (OldLabel delta) (NewLabel delta)) of
                             (Some e, d10) \<Rightarrow> (Return (Some (Failure ''Unable to notify subscribers'')), d10)
                           | (None, d10) \<Rightarrow> (Return None, d10))"

text \<open>
  \<open>SplitLabels\<close> and \<open>SplitCoarseLabels\<close>. The reader \<open>r\<close> is what \<open>dvid.ReadRLEs\<close>
  makes of it: the runs, or an error. The block size is a \<open>Point3d\<close> in the model, so the
  type assertion on it succeeds.
\<close>

definition newSplitLabel :: "Data \<Rightarrow> label \<Rightarrow> label \<times> error option \<times> Data" where
  "newSplitLabel d splitLbl =
     (if splitLbl \<noteq> 0 then (splitLbl, None, d) else Data_NewLabel d)"

definition SplitLabels :: "Data \<Rightarrow> VersionID \<Rightarrow> label \<Rightarrow> label \<Rightarrow> error + RLE list
    \<Rightarrow> (label \<times> error option) outcome \<times> Data" where
  "SplitLabels d v fromLabel splitLbl r =
     (case newSplitLabel d splitLbl of
        (toLabel, Some e, d1) \<Rightarrow> (Return (toLabel, Some e), d1)
      | (toLabel, None, d1) \<Rightarrow>
          (case startError d1 of
             Some e \<Rightarrow> (Return (toLabel, Some e), d1)
           | None \<Rightarrow>
               (case NotifySubscribers d1 (SplitStartEvent fromLabel toLabel) of
                  (Some e, d2) \<Rightarrow> (Return (toLabel, Some e), d2)
                | (None, d2) \<Rightarrow>
                    (case r of
                       Inl e \<Rightarrow> (Return (toLabel, Some e), d2)
                     | Inr split \<Rightarrow>
                         let toLabelSize = fst (Stats split)
                         in case Partition (codec d2) split (BlockSize d2) of
                              Inl e \<Rightarrow> (Return (toLabel, Some e), d2)
                            | Inr splitmap \<Rightarrow>
                                let splitblks = sort (map fst splitmap);
                                    deltaSplit = \<lparr>OldLabel = fromLabel, NewLabel = toLabel,
                                                  Split = Some splitmap, SortedBlocks = splitblks,
                                                  SplitVoxels = toLabelSize\<rparr>
                                in case processSplit d2 v deltaSplit of
                                     (Return (Some e), d3) \<Rightarrow> (Return (toLabel, Some e), d3)
                                   | (Return None, d3) \<Rightarrow> (Return (toLabel, None), d3)
                                   | (Blocked, d3) \<Rightarrow> (Blocked, d3)
                                   | (Crash, d3) \<Rightarrow> (Crash, d3)))))"

text \<open>
  \<open>make(dvid.IZYXSlice, numBlocks)\<close> panics when the length is out of range for the
  runtime: a slice of strings takes 16 bytes for each element, and the Go runtime on a
  64-bit platform refuses more than \<open>2^48\<close> bytes. The number of blocks is the first
  result of \<open>Stats\<close>, an unsigned 64-bit sum of the run lengths, so a run of negative
  length makes it that large. The loop that fills the slice panics when it runs past its end.
\<close>

definition makeLimit :: nat where
  "makeLimit = 2 ^ 44"

definition coarseBlocks :: "Codec \<Rightarrow> RLE list \<Rightarrow> IZYXString list" where
  "coarseBlocks c splits =
     concat (map (\<lambda>rle. case StartPt rle of (p0, p1, p2) \<Rightarrow>
                    map (\<lambda>i. ToIZYXString c (i32 (p0 + int i), p1, p2)) [0..<nat (Length rle)])
                 splits)"

definition SplitCoarseLabels :: "Data \<Rightarrow> VersionID \<Rightarrow> label \<Rightarrow> label \<Rightarrow> error + RLE list
    \<Rightarrow> (label \<times> error option) outcome \<times> Data" where
  "SplitCoarseLabels d v fromLabel splitLbl r =
     (case newSplitLabel d splitLbl of
        (toLabel, Some e, d1) \<Rightarrow> (Return (toLabel, Some e), d1)
      | (toLabel, None, d1) \<Rightarrow>
          (case startError d1 of
             Some e \<Rightarrow> (Return (toLabel, Some e), d1)
           | None \<Rightarrow>
               (case NotifySubscribers d1 (SplitStartEvent fromLabel toLabel) of
                  (Some e, d2) \<Rightarrow> (Return (0, Some e), d2)
                | (None, d2) \<Rightarrow>
                    (case r of
                       Inl e \<Rightarrow> (Return (toLabel, Some e), d2)
                     | Inr splits \<Rightarrow>
                         let numBlocks = unat (fst (Stats splits));
                             filled = coarseBlocks (codec d2) splits
                         in if makeLimit < numBlocks \<or> numBlocks < length filled
                            then (Crash, d2\<lparr>panicked := True\<rparr>)
                            else
                              let splitblks = sort (filled @ replicate (numBlocks - length filled) []);
                                  deltaSplit = \<lparr>OldLabel = fromLabel, NewLabel = toLabel,
                                                Split = None, SortedBlocks = splitblks,
                                                SplitVoxels = 0\<rparr>
                              in case NotifySubscribers d2 (SplitLabelEvent deltaSplit) of
                                   (Some e, d3) \<Rightarrow> (Return (0, Some e), d3)
                                 | (None, d3) \<Rightarrow> (Return (toLabel, None), d3)))))"

section \<open>Grouping changed blocks by octant (labelarray)\<close>

datatype BlockValue = LabelsBlock nat | NotABlock

type_synonym octantMap = "IZYXString \<Rightarrow> nat option list option"

definition octantIdx :: "Point3d \<Rightarrow> int" where
  "octantIdx hresCoord =
     i32 (i32 (go_shr (go_rem (Value hresCoord 2) 2) 2 + go_shr (go_rem (Value hresCoord 1) 2) 1)
          + go_rem (Value hresCoord 0) 2)"

fun getHiresChanges_loop :: "Codec \<Rightarrow> (IZYXString \<times> BlockValue) list \<Rightarrow> octantMap \<Rightarrow> octantMap result" where
  "getHiresChanges_loop c [] octants = Ok octants"
| "getHiresChanges_loop c ((hiresZYX, NotABlock) # rest) octants =
     Err (Failure ''bad changing block: expected *labels.Block'')"
| "getHiresChanges_loop c ((hiresZYX, LabelsBlock block) # rest) octants =
     (case ToChunkPoint3d c hiresZYX of
        Inl e \<Rightarrow> Err e
      | Inr hresCoord \<Rightarrow>
          let downresX = go_shr (Value hresCoord 0) 1;
              downresY = go_shr (Value hresCoord 1) 1;
              downresZ = go_shr (Value hresCoord 2) 1;
              loresZYX = ToIZYXString c (downresX, downresY, downresZ);
              idx = octantIdx hresCoord;
              oct = (case octants loresZYX of Some oct \<Rightarrow> oct | None \<Rightarrow> replicate 8 None)
          in if idx < 0 \<or> 8 \<le> idx then Panicked
             else getHiresChanges_loop c rest (octants(loresZYX \<mapsto> oct[nat idx := Some block])))"

definition getHiresChanges :: "Codec \<Rightarrow> (IZYXString \<times> BlockValue) list \<Rightarrow> octantMap result" where
  "getHiresChanges c hires = getHiresChanges_loop c hires (\<lambda>k. None)"

text \<open>The mapping the spec names as the intended one (design notes, open question ii).\<close>

definition octantOfParity :: "Point3d \<Rightarrow> int" where
  "octantOfParity p = (Value p 2 AND 1) * 4 + (Value p 1 AND 1) * 2 + (Value p 0 AND 1)"

section \<open>Notions used in the statements\<close>

subsection \<open>Entries of the store\<close>

text \<open>
  The entry of a type-key at one version: the value under the data key when the flag is
  \<open>False\<close>, the tombstone when it is \<open>True\<close>.
\<close>

definition entryAt :: "LevelDB \<Rightarrow> VersionedCtx \<Rightarrow> TKey \<Rightarrow> VersionID \<Rightarrow> bool \<Rightarrow> bytes option" where
  "entryAt db vctx tk a t = map_of (ldb db) (encodeKey dataKeyClass (ctxInstance vctx) tk a t)"

definition hasEntry :: "LevelDB \<Rightarrow> VersionedCtx \<Rightarrow> TKey \<Rightarrow> VersionID \<Rightarrow> bool" where
  "hasEntry db vctx tk a = (entryAt db vctx tk a True \<noteq> None \<or> entryAt db vctx tk a False \<noteq> None)"

text \<open>
  The type-key has no fixed width, so the key of another type-key can begin with the bytes
  of class, instance and this type-key, and then lies among the versions of this one in the
  order of the store. A store keeps the versions of a type-key to themselves when every
  stored key that begins with these bytes is a key of this type-key: these bytes, a
  version and a flag. Type-keys of one width, as those of the blocks of a label volume,
  make it so.
\<close>

definition keyPrefix :: "VersionedCtx \<Rightarrow> TKey \<Rightarrow> bytes" where
  "keyPrefix vctx tk = dataKeyClass # be32 (ctxInstance vctx) @ tk"

definition prefixFree :: "LevelDB \<Rightarrow> VersionedCtx \<Rightarrow> TKey \<Rightarrow> bool" where
  "prefixFree db vctx tk =
     (\<forall>k \<in> set (map fst (ldb db)).
        take (length (keyPrefix vctx tk)) k = keyPrefix vctx tk \<longrightarrow>
        k = encodeKey dataKeyClass (ctxInstance vctx) tk (key_version k) (key_tombstone k))"

text \<open>
  A data key of the versioned layout ends in the flag 0, its tombstone key is the same
  bytes with the flag 1. A store is exclusive when no data key is stored together with its
  tombstone key.
\<close>

definition isDataKey :: "Key \<Rightarrow> bool" where
  "isDataKey k = (10 \<le> length k \<and> hd k = dataKeyClass \<and> last k = 0)"

definition exclusive :: "KeyValue list \<Rightarrow> bool" where
  "exclusive kvs = (\<forall>k \<in> set (map fst kvs). isDataKey k \<longrightarrow> butlast k @ [1] \<notin> set (map fst kvs))"

definition keyStem :: "VersionedCtx \<Rightarrow> TKey \<Rightarrow> bytes" where
  "keyStem vctx tk = dataKeyClass # be32 (ctxInstance vctx) @ tk @ be32 (ctxVersion vctx)"

text \<open>A call on a batch, to speak about any sequence of \<open>Put\<close> and \<open>Delete\<close> calls.\<close>

datatype BatchCall = CallPut TKey bytes | CallDelete TKey

fun batchCall :: "goBatch option \<Rightarrow> BatchCall \<Rightarrow> goBatch option" where
  "batchCall b (CallPut tk v) = goBatch_Put b tk v"
| "batchCall b (CallDelete tk) = goBatch_Delete b tk"

definition callOps :: "VersionedCtx \<Rightarrow> BatchCall \<Rightarrow> WriteOp list" where
  "callOps vctx call =
     (case call of
        CallPut tk v \<Rightarrow> [WDelete (TombstoneKey vctx tk), WPut (DataKey vctx tk) v, WPut (DataKey vctx tk) v]
      | CallDelete tk \<Rightarrow> [WPut (TombstoneKey vctx tk) EmptyValue, WDelete (DataKey vctx tk)])"

text \<open>The store as a map, and the effect of one raw operation on it.\<close>

fun op_map :: "(Key \<rightharpoonup> bytes) \<Rightarrow> WriteOp \<Rightarrow> (Key \<rightharpoonup> bytes)" where
  "op_map m (WPut k v) = m(k \<mapsto> v)"
| "op_map m (WDelete k) = m(k := None)"

definition exclusiveMap :: "(Key \<rightharpoonup> bytes) \<Rightarrow> bool" where
  "exclusiveMap m = (\<forall>p. 9 \<le> length p \<and> hd p = dataKeyClass \<longrightarrow> m (p @ [0]) = None \<or> m (p @ [1]) = None)"

subsection \<open>Voxels of a block\<close>

text \<open>
  The label of voxel \<open>k\<close> of a block, in the linear order of the block data, and the
  number of voxels of a block that carry a label.
\<close>

definition labelAt :: "bytes \<Rightarrow> nat \<Rightarrow> label" where
  "labelAt data k = Uint64 data (8 * k)"

definition countLabel :: "bytes \<Rightarrow> label \<Rightarrow> nat" where
  "countLabel data l = length (filter (\<lambda>k. labelAt data k = l) [0..<length data div 8])"

text \<open>
  A run lies in a block when, relative to the first voxel of the block, it starts and ends
  inside the block. Voxel \<open>(x, y, z)\<close> of a block of size \<open>(sx, sy, sz)\<close> is voxel
  \<open>(z * sy + y) * sx + x\<close> of its data.
\<close>

definition runInBlock :: "Point3d \<Rightarrow> Point3d \<Rightarrow> RLE \<Rightarrow> bool" where
  "runInBlock blockSize offset rle =
     (case Sub (StartPt rle) offset of (px, py, pz) \<Rightarrow>
      case blockSize of (sx, sy, sz) \<Rightarrow>
        0 \<le> px \<and> 0 \<le> Length rle \<and> px + Length rle \<le> sx \<and> 0 \<le> py \<and> py < sy \<and> 0 \<le> pz \<and> pz < sz)"

definition runVoxels :: "Point3d \<Rightarrow> Point3d \<Rightarrow> RLE \<Rightarrow> nat list" where
  "runVoxels blockSize offset rle =
     (case Sub (StartPt rle) offset of (px, py, pz) \<Rightarrow>
      case blockSize of (sx, sy, sz) \<Rightarrow>
        map (\<lambda>j. nat ((pz * sy + py) * sx + px) + j) [0..<nat (Length rle)])"

subsection \<open>Messages and states\<close>

text \<open>The mutation a message belongs to; the messages of a merge.\<close>

fun msgMutID :: "procMsg \<Rightarrow> MutID option" where
  "msgMutID (OpMerge op, v) = Some (m_mutID op)"
| "msgMutID (OpSplit op, v) = Some (s_mutID op)"
| "msgMutID (OpOther, v) = None"

definition isMergeMsg :: "procMsg \<Rightarrow> bool" where
  "isMergeMsg msg = (case fst msg of OpMerge op \<Rightarrow> True | _ \<Rightarrow> False)"

text \<open>What a mutation leaves alone in the state of a data instance.\<close>

definition sameConfig :: "Data \<Rightarrow> Data \<Rightarrow> bool" where
  "sameConfig d d' =
     (codec d' = codec d \<and> instanceID d' = instanceID d \<and> versionParents d' = versionParents d \<and>
      BlockSize d' = BlockSize d \<and> storeError d' = storeError d \<and> isBatcher d' = isBatcher d \<and>
      notifyError d' = notifyError d)"

text \<open>The raw operations of the batch by which a merge updates the label index.\<close>

definition mergeIndexOps :: "Data \<Rightarrow> VersionID \<Rightarrow> MergeOp \<Rightarrow> bytes \<Rightarrow> WriteOp list" where
  "mergeIndexOps d v op data =
     (let ctx = NewVersionedCtx d v; tk = NewLabelIndexTKey (codec d)
      in [WDelete (TombstoneKey ctx (tk (Target op))),
          WPut (DataKey ctx (tk (Target op))) data,
          WPut (DataKey ctx (tk (Target op))) data] @
         concat (map (\<lambda>m. [WPut (TombstoneKey ctx (tk m)) EmptyValue, WDelete (DataKey ctx (tk m))])
                     (Merged op)))"


section \<open>Example states\<close>

subsection \<open>A store with two versions\<close>

text \<open>
  Data instance 7, root version 1 with child 2, and the type-key \<open>0xAA\<close>: the store
  after \<open>alpha\<close> was put at version 1, and the store after the key was then deleted at
  version 2.
\<close>

definition alpha :: bytes where "alpha = [97, 108, 112, 104, 97]"

definition beta :: bytes where "beta = [98, 101, 116, 97]"

definition ctxRoot :: VersionedCtx where
  "ctxRoot = \<lparr>ctxInstance = 7, ctxVersion = 1, ctxParents = []\<rparr>"

definition ctxChild :: VersionedCtx where
  "ctxChild = \<lparr>ctxInstance = 7, ctxVersion = 2, ctxParents = [1]\<rparr>"

definition dbAlpha :: LevelDB where
  "dbAlpha = \<lparr>ldb = [(encodeKey 2 7 [0xAA] 1 False, alpha)],
              itError = None, getError = None, writeError = (\<lambda>ops. None), written = []\<rparr>"

definition dbDeleted :: LevelDB where
  "dbDeleted = \<lparr>ldb = [(encodeKey 2 7 [0xAA] 1 False, alpha), (encodeKey 2 7 [0xAA] 2 True, [])],
                itError = None, getError = None, writeError = (\<lambda>ops. None), written = []\<rparr>"

text \<open>
  The store after \<open>alpha\<close> was put at version 1 and the longer type-key
  \<open>0xAA 00 00 00 02\<close> was deleted at version 2.
\<close>

definition dbLonger :: LevelDB where
  "dbLonger = \<lparr>ldb = [(encodeKey 2 7 [0xAA] 1 False, alpha), (encodeKey 2 7 [0xAA, 0, 0, 0, 2] 2 True, [])],
               itError = None, getError = None, writeError = (\<lambda>ops. None), written = []\<rparr>"

subsection \<open>A label volume of three blocks\<close>

text \<open>
  A codec for the examples: a label index entry is the voxel count in eight bytes,
  little-endian, followed by the block coordinates; a block coordinate is the three bytes
  \<open>z, y, x\<close>; blocks are stored as they are. Its partition puts every run into the block of
  its start point.
\<close>

fun chunk3 :: "bytes \<Rightarrow> bytes list" where
  "chunk3 (a # b # c # rest) = [a, b, c] # chunk3 rest"
| "chunk3 rest = []"

definition demoCodec :: Codec where
  "demoCodec =
     \<lparr>MarshalBinary = (\<lambda>m. Inr (le64 (Voxels m) @ concat (Blocks m))),
      UnmarshalBinary = (\<lambda>bs. if length bs < 8 then Inl (Failure ''short label meta'')
                                else Inr \<lparr>Voxels = le_decode (take 8 bs), Blocks = chunk3 (drop 8 bs)\<rparr>),
      SerializeData = Inr,
      DeserializeData = Inr,
      Decompress = Inr,
      ToChunkPoint3d = (\<lambda>izyx. case izyx of
                           [z, y, x] \<Rightarrow> Inr (uint x, uint y, uint z)
                         | _ \<Rightarrow> Inl (Failure ''bad block coordinate'')),
      ToIZYXString = (\<lambda>p. case p of (x, y, z) \<Rightarrow> [word_of_int z, word_of_int y, word_of_int x]),
      NewLabelIndexTKey = (\<lambda>l. 1 # rev (le64 l)),
      NewBlockTKeyByCoord = (\<lambda>b. 0 # b),
      Partition = (\<lambda>rs bs. Inr (map (\<lambda>r. ([0, 0, word_of_int (fst (StartPt r) div fst bs)], [r])) rs))\<rparr>"

text \<open>
  Data instance 9 at version 3, blocks of two voxels. Block \<open>[0,0,0]\<close> holds labels
  10 and 10, block \<open>[0,0,1]\<close> holds 10 and 11, block \<open>[0,0,2]\<close> holds 11 and 11. The
  index has label 10 with 3 voxels in the first two blocks and label 11 with 3 voxels in
  the last two.
\<close>

definition demoStore :: LevelDB where
  "demoStore =
     \<lparr>ldb = [(encodeKey 2 9 [0, 0, 0, 0] 3 False, [10, 0, 0, 0, 0, 0, 0, 0, 10, 0, 0, 0, 0, 0, 0, 0]),
             (encodeKey 2 9 [0, 0, 0, 1] 3 False, [10, 0, 0, 0, 0, 0, 0, 0, 11, 0, 0, 0, 0, 0, 0, 0]),
             (encodeKey 2 9 [0, 0, 0, 2] 3 False, [11, 0, 0, 0, 0, 0, 0, 0, 11, 0, 0, 0, 0, 0, 0, 0]),
             (encodeKey 2 9 [1, 0, 0, 0, 0, 0, 0, 0, 10] 3 False, [3, 0, 0, 0, 0, 0, 0, 0, 0, 0, 0, 0, 0, 1]),
             (encodeKey 2 9 [1, 0, 0, 0, 0, 0, 0, 0, 11] 3 False, [3, 0, 0, 0, 0, 0, 0, 0, 0, 0, 1, 0, 0, 2])],
      itError = None, getError = None, writeError = (\<lambda>ops. None), written = []\<rparr>"

definition demoData :: Data where
  "demoData =
     \<lparr>codec = demoCodec, instanceID = 9, versionParents = (\<lambda>v. []), BlockSize = (2, 1, 1),
      store = demoStore, storeError = None, isBatcher = True, notifyError = (\<lambda>evt. None),
      startError = None, newLabelError = None, MaxLabel = 11, mutationID = 0,
      mutcache = (\<lambda>m. 0), updating = 0, mutateCh = [], deleteBlkCh = [], events = [], logs = [],
      panicked = False\<rparr>"

definition demoMerge :: MergeOp where
  "demoMerge = \<lparr>Target = 10, Merged = [11]\<rparr>"

definition demoPrev :: "label \<Rightarrow> Meta" where
  "demoPrev l = (if l = 10 then \<lparr>Voxels = 3, Blocks = [[0, 0, 0], [0, 0, 1]]\<rparr>
                 else \<lparr>Voxels = 3, Blocks = [[0, 0, 1], [0, 0, 2]]\<rparr>)"

definition demoDelta :: DeltaMerge where
  "demoDelta = \<lparr>dmMergeOp = demoMerge, dmBlocks = [[0, 0, 0], [0, 0, 1], [0, 0, 2]],
                TargetVoxels = 3, MergedVoxels = 3\<rparr>"

definition demoMergeOp3 :: mergeOp where
  "demoMergeOp3 = \<lparr>m_mutID = 1, m_MergeOp = demoMerge, m_block = [0, 0, 2]\<rparr>"

text \<open>A run over the first voxel of block \<open>[0,0,0]\<close>, and the split of it from label 10.\<close>

definition demoRun :: RLE where
  "demoRun = \<lparr>StartPt = (0, 0, 0), Length = 1\<rparr>"

definition demoBlock :: bytes where
  "demoBlock = [10, 0, 0, 0, 0, 0, 0, 0, 10, 0, 0, 0, 0, 0, 0, 0]"

definition demoSplitOp :: splitOp where
  "demoSplitOp = \<lparr>s_mutID = 1, oldLabel = 10, newLabel = 13,
                  rles = Some [demoRun], s_block = [0, 0, 0]\<rparr>"

definition demoFineSplit :: DeltaSplit where
  "demoFineSplit = \<lparr>OldLabel = 10, NewLabel = 13,
                    Split = Some [([0, 0, 0], [demoRun])],
                    SortedBlocks = [[0, 0, 0]], SplitVoxels = 1\<rparr>"

text \<open>The coarse split of block \<open>[0,0,2]\<close> from label 11 into label 12.\<close>

definition demoCoarse :: DeltaSplit where
  "demoCoarse = \<lparr>OldLabel = 11, NewLabel = 12, Split = None, SortedBlocks = [[0, 0, 2]], SplitVoxels = 0\<rparr>"

text \<open>
  The same volume with two defects: block \<open>[0,0,2]\<close> is missing from the store, and the
  store refuses every batch of more than two operations.
\<close>


definition demoBroken :: Data where
  "demoBroken =
     demoData\<lparr>store :=
       \<lparr>ldb = [(encodeKey 2 9 [0, 0, 0, 0] 3 False, [10, 0, 0, 0, 0, 0, 0, 0, 10, 0, 0, 0, 0, 0, 0, 0]),
               (encodeKey 2 9 [0, 0, 0, 1] 3 False, [10, 0, 0, 0, 0, 0, 0, 0, 11, 0, 0, 0, 0, 0, 0, 0]),
               (encodeKey 2 9 [1, 0, 0, 0, 0, 0, 0, 0, 10] 3 False, [3, 0, 0, 0, 0, 0, 0, 0, 0, 0, 0, 0, 0, 1]),
               (encodeKey 2 9 [1, 0, 0, 0, 0, 0, 0, 0, 11] 3 False, [3, 0, 0, 0, 0, 0, 0, 0, 0, 0, 1, 0, 0, 2])],
        itError = None, getError = None,
        writeError = (\<lambda>ops. if 2 < length ops then Some (EngineError 5) else None),
        written = []\<rparr>\<rparr>"


section \<open>The engine: proofs\<close>

subsection \<open>The store as a sorted list\<close>

lemma map_of_ldb_put: "map_of (ldb_put k v kvs) = (map_of kvs)(k \<mapsto> v)"
  by (induction kvs) (auto simp: fun_upd_twist)

lemma keys_ldb_put: "set (map fst (ldb_put k v kvs)) = insert k (set (map fst kvs))"
  by (induction k v kvs rule: ldb_put.induct) (simp_all add: insert_commute)

lemma keys_ldb_delete: "set (map fst (ldb_delete k kvs)) \<subseteq> set (map fst kvs)"
  by (induction k kvs rule: ldb_delete.induct) auto

lemma sorted_ldb_put:
  "sorted_wrt (<) (map fst kvs) \<Longrightarrow> sorted_wrt (<) (map fst (ldb_put k v kvs))"
proof (induction kvs)
  case Nil
  then show ?case by simp
next
  case (Cons a kvs)
  obtain k' v' where a: "a = (k', v')" by (cases a)
  have keys: "set (map fst (ldb_put k v kvs)) = insert k (set (map fst kvs))"
    by (rule keys_ldb_put)
  from Cons show ?case
    unfolding a by (auto simp: keys simp del: set_map)
qed

lemma sorted_ldb_delete:
  "sorted_wrt (<) (map fst kvs) \<Longrightarrow> sorted_wrt (<) (map fst (ldb_delete k kvs))"
proof (induction kvs)
  case Nil
  then show ?case by simp
next
  case (Cons a kvs)
  obtain k' v' where a: "a = (k', v')" by (cases a)
  have keys: "set (map fst (ldb_delete k kvs)) \<subseteq> set (map fst kvs)"
    by (rule keys_ldb_delete)
  from Cons show ?case
    unfolding a using keys by (auto simp del: set_map)
qed

lemma map_of_ldb_delete:
  "sorted_wrt (<) (map fst kvs) \<Longrightarrow> map_of (ldb_delete k kvs) = (map_of kvs)(k := None)"
proof (induction kvs)
  case Nil
  then show ?case by simp
next
  case (Cons a kvs)
  obtain k' v' where a: "a = (k', v')" by (cases a)
  show ?case
  proof (cases "k = k'")
    case True
    have "k \<notin> fst ` set kvs" using Cons.prems unfolding a True by auto
    then have "map_of kvs k = None" by (simp add: map_of_eq_None_iff)
    then show ?thesis unfolding a using True by (auto simp: fun_eq_iff)
  next
    case False
    then show ?thesis unfolding a using Cons by (auto simp: fun_eq_iff)
  qed
qed

lemma apply_op_sorted: "sorted_wrt (<) (map fst kvs) \<Longrightarrow> sorted_wrt (<) (map fst (apply_op kvs op))"
  by (cases op) (simp_all add: sorted_ldb_put sorted_ldb_delete)

lemma apply_op_map: "sorted_wrt (<) (map fst kvs) \<Longrightarrow> map_of (apply_op kvs op) = op_map (map_of kvs) op"
  by (cases op) (simp_all add: map_of_ldb_put map_of_ldb_delete)

lemma foldl_apply_op:
  "sorted_wrt (<) (map fst kvs) \<Longrightarrow>
     sorted_wrt (<) (map fst (foldl apply_op kvs ops)) \<and>
     map_of (foldl apply_op kvs ops) = foldl op_map (map_of kvs) ops"
  by (induction ops arbitrary: kvs) (simp_all add: apply_op_sorted apply_op_map)

subsection \<open>Keys as byte strings\<close>














subsection \<open>The scan over the versions of a key\<close>













lemmas engine_defs = alpha_def beta_def ctxRoot_def ctxChild_def dbAlpha_def dbDeleted_def dbLonger_def
  hasEntry_def entryAt_def ancestors_def dataKeyClass_def DataKey_def TombstoneKey_def
  encodeKey_def be32_def keyPrefix_def key_version_def key_tombstone_def



text \<open>
  The condition on the store is needed. In the store \<open>dbLonger\<close> the tombstone of the
  longer type-key lies in the range that the scan for \<open>0xAA\<close> covers; the resolver reads it
  as a tombstone of version 2, and the child does not see \<open>alpha\<close>, the entry of its
  nearest ancestor.
\<close>

lemma Get_scans_longer_type_keys:
  "sorted_wrt (<) (map fst (ldb dbLonger)) \<and>
   \<not> prefixFree dbLonger ctxChild [0xAA] \<and>
   getSingleKeyVersions dbLonger ctxChild [0xAA] = Inr (ldb dbLonger) \<and>
   entryAt dbLonger ctxChild [0xAA] 2 True = None \<and>
   entryAt dbLonger ctxChild [0xAA] 1 False = Some alpha \<and>
   LevelDB_Get dbLonger (CtxVersioned ctxChild) [0xAA] = Inr None"
  by (simp add: prefixFree_def getSingleKeyVersions_def MinVersionKey_def MaxVersionKey_def
      VersionedKeyValue_def engine_defs)

subsection \<open>Values and tombstones\<close>

lemma exclusive_map_of: "exclusive kvs = exclusiveMap (map_of kvs)"
proof -
  have dom: "\<And>k. (map_of kvs k = None) = (k \<notin> set (map fst kvs))"
    by (simp add: map_of_eq_None_iff)
  show ?thesis
  proof
    assume h: "exclusive kvs"
    show "exclusiveMap (map_of kvs)"
      unfolding exclusiveMap_def
    proof (intro allI impI)
      fix p :: bytes
      assume p: "9 \<le> length p \<and> hd p = dataKeyClass"
      then have ne: "p \<noteq> []" by auto
      have bl: "butlast (p @ [0]) = p" by simp
      have d: "isDataKey (p @ [0])" using p ne by (simp add: isDataKey_def)
      show "map_of kvs (p @ [0]) = None \<or> map_of kvs (p @ [1]) = None"
      proof (cases "p @ [0] \<in> set (map fst kvs)")
        case False
        then show ?thesis unfolding dom by blast
      next
        case True
        then have "butlast (p @ [0]) @ [1] \<notin> set (map fst kvs)"
          using h d unfolding exclusive_def by blast
        then show ?thesis unfolding dom bl by blast
      qed
    qed
  next
    assume h: "exclusiveMap (map_of kvs)"
    show "exclusive kvs"
      unfolding exclusive_def
    proof (intro ballI impI)
      fix k
      assume k: "k \<in> set (map fst kvs)" and d: "isDataKey k"
      show "butlast k @ [1] \<notin> set (map fst kvs)"
      proof (cases k rule: rev_cases)
        case Nil
        then show ?thesis using d by (simp add: isDataKey_def)
      next
        case (snoc p b)
        have len: "9 \<le> length p" using d by (simp add: isDataKey_def snoc)
        then have ne: "p \<noteq> []" by auto
        have hd: "hd p = dataKeyClass" using d ne by (simp add: isDataKey_def snoc)
        have b: "b = 0" using d by (simp add: isDataKey_def snoc)
        have "9 \<le> length p \<and> hd p = dataKeyClass" using len hd by (rule conjI)
        then have "map_of kvs (p @ [0]) = None \<or> map_of kvs (p @ [1]) = None"
          by (rule h[unfolded exclusiveMap_def, rule_format])
        then have "p @ [0] \<notin> set (map fst kvs) \<or> p @ [1] \<notin> set (map fst kvs)"
          unfolding dom .
        moreover have "p @ [0] \<in> set (map fst kvs)" using k by (simp only: snoc b)
        ultimately have "p @ [1] \<notin> set (map fst kvs)" by blast
        then show ?thesis by (simp add: snoc)
      qed
    qed
  qed
qed

lemma batchCalls_ops:
  assumes "bctx b = CtxVersioned vctx" "bvctx b = Some vctx"
  shows "foldl batchCall (Some b) calls =
           Some (b\<lparr>WriteBatch := WriteBatch b @ concat (map (callOps vctx) calls)\<rparr>)"
  using assms
proof (induction calls arbitrary: b)
  case Nil
  then show ?case by simp
next
  case (Cons call calls)
  show ?case
  proof (cases call)
    case (CallPut tk v)
    let ?b = "b\<lparr>WriteBatch := WriteBatch b @ callOps vctx call\<rparr>"
    have step: "batchCall (Some b) call = Some ?b"
      using Cons.prems CallPut by (simp add: callOps_def Let_def)
    have "foldl batchCall (Some ?b) calls =
        Some (?b\<lparr>WriteBatch := WriteBatch ?b @ concat (map (callOps vctx) calls)\<rparr>)"
      by (rule Cons.IH) (simp_all add: Cons.prems)
    then show ?thesis using step by simp
  next
    case (CallDelete tk)
    let ?b = "b\<lparr>WriteBatch := WriteBatch b @ callOps vctx call\<rparr>"
    have step: "batchCall (Some b) call = Some ?b"
      using Cons.prems CallDelete by (simp add: callOps_def Let_def)
    have "foldl batchCall (Some ?b) calls =
        Some (?b\<lparr>WriteBatch := WriteBatch ?b @ concat (map (callOps vctx) calls)\<rparr>)"
      by (rule Cons.IH) (simp_all add: Cons.prems)
    then show ?thesis using step by simp
  qed
qed

lemma exclusiveMap_put:
  "exclusiveMap m \<Longrightarrow> exclusiveMap (m(q @ [1] := None, q @ [0] \<mapsto> x))"
  unfolding exclusiveMap_def by auto

lemma exclusiveMap_delete:
  "exclusiveMap m \<Longrightarrow> exclusiveMap (m(q @ [1] \<mapsto> x, q @ [0] := None))"
  unfolding exclusiveMap_def by auto

lemma key_stem:
  "DataKey vctx tk = keyStem vctx tk @ [0]" "TombstoneKey vctx tk = keyStem vctx tk @ [1]"
  by (simp_all add: DataKey_def TombstoneKey_def encodeKey_def keyStem_def)

lemma exclusiveMap_callOps:
  "exclusiveMap m \<Longrightarrow> exclusiveMap (foldl op_map m (callOps vctx call))"
  by (cases call) (simp_all add: callOps_def key_stem exclusiveMap_put exclusiveMap_delete)

lemma exclusiveMap_calls:
  "exclusiveMap m \<Longrightarrow> exclusiveMap (foldl op_map m (concat (map (callOps vctx) calls)))"
  by (induction calls arbitrary: m) (simp_all add: exclusiveMap_callOps)

lemma exclusive_Write:
  assumes "sorted_wrt (<) (map fst (ldb db))" "exclusive (ldb db)"
    and "exclusiveMap (foldl op_map (map_of (ldb db)) ops)"
  shows "exclusive (ldb (snd (ldb_Write db ops)))"
  using assms foldl_apply_op[OF assms(1), of ops]
  by (auto simp: ldb_Write_def exclusive_map_of split: option.splits)

lemma ldb_Write_cases:
  "(case ldb_Write db ops of
      (err, db') \<Rightarrow>
        (err = None \<longrightarrow> written db' = written db @ [ops] \<and> ldb db' = foldl apply_op (ldb db) ops) \<and>
        (err \<noteq> None \<longrightarrow> db' = db))"
  by (simp add: ldb_Write_def split: option.splits)

text \<open>
  Claim C9. After every committed versioned write a data key and its tombstone key for the
  same instance, type-key and version never both exist. A versioned \<open>Put\<close> writes one
  batch that deletes the tombstone key and puts the value; a versioned \<open>Delete\<close> writes one
  batch that deletes the data key and puts the tombstone. The batch built by any calls of
  \<open>goBatch.Put\<close> and \<open>goBatch.Delete\<close> holds, call by call, the deletion of the tombstone
  key with the puts of the value, and the put of the tombstone with the deletion of the data
  key; committed, it is written as one batch and leaves the store exclusive. A write that
  fails leaves the store as it was. The store is sorted by key and exclusive before the
  write.
\<close>

theorem versioned_writes_exclusive:
  assumes "sorted_wrt (<) (map fst (ldb db))" and "exclusive (ldb db)"
  shows "(case LevelDB_Put db (CtxVersioned vctx) tk v of
            (err, db') \<Rightarrow> exclusive (ldb db') \<and>
              (err = None \<longrightarrow>
                 written db' = written db @ [[WDelete (TombstoneKey vctx tk), WPut (DataKey vctx tk) v]] \<and>
                 map_of (ldb db') (DataKey vctx tk) = Some v \<and>
                 map_of (ldb db') (TombstoneKey vctx tk) = None) \<and>
              (err \<noteq> None \<longrightarrow> db' = db)) \<and>
         (case LevelDB_Delete db (CtxVersioned vctx) tk of
            (err, db') \<Rightarrow> exclusive (ldb db') \<and>
              (err = None \<longrightarrow>
                 written db' = written db @ [[WDelete (DataKey vctx tk), WPut (TombstoneKey vctx tk) EmptyValue]] \<and>
                 map_of (ldb db') (DataKey vctx tk) = None \<and>
                 map_of (ldb db') (TombstoneKey vctx tk) = Some EmptyValue) \<and>
              (err \<noteq> None \<longrightarrow> db' = db)) \<and>
         (case goBatch_Commit db (foldl batchCall (NewBatch (CtxVersioned vctx)) calls) of
            (err, db') \<Rightarrow> exclusive (ldb db') \<and>
              (err = None \<longrightarrow>
                 written db' = written db @ [concat (map (callOps vctx) calls)] \<and>
                 ldb db' = foldl apply_op (ldb db) (concat (map (callOps vctx) calls))) \<and>
              (err \<noteq> None \<longrightarrow> db' = db))"
proof (intro conjI)
  let ?m = "map_of (ldb db)"
  have m: "exclusiveMap ?m" using assms(2) by (simp add: exclusive_map_of)
  let ?T = "TombstoneKey vctx tk" and ?D = "DataKey vctx tk"
  have TD: "?T \<noteq> ?D" by (simp add: key_stem)
  have putm: "exclusiveMap (foldl op_map ?m [WDelete ?T, WPut ?D v])"
    using exclusiveMap_put[OF m] by (simp add: key_stem)
  have delm: "exclusiveMap (foldl op_map ?m [WDelete ?D, WPut ?T EmptyValue])"
    using exclusiveMap_delete[OF m, of "keyStem vctx tk" EmptyValue]
    by (simp add: key_stem fun_upd_twist)
  show "case LevelDB_Put db (CtxVersioned vctx) tk v of
            (err, db') \<Rightarrow> exclusive (ldb db') \<and>
              (err = None \<longrightarrow>
                 written db' = written db @ [[WDelete (TombstoneKey vctx tk), WPut (DataKey vctx tk) v]] \<and>
                 map_of (ldb db') (DataKey vctx tk) = Some v \<and>
                 map_of (ldb db') (TombstoneKey vctx tk) = None) \<and>
              (err \<noteq> None \<longrightarrow> db' = db)"
    using exclusive_Write[OF assms putm] foldl_apply_op[OF assms(1), of "[WDelete ?T, WPut ?D v]"] TD
    by (auto simp: ldb_Write_def Let_def split: option.splits)
  show "case LevelDB_Delete db (CtxVersioned vctx) tk of
            (err, db') \<Rightarrow> exclusive (ldb db') \<and>
              (err = None \<longrightarrow>
                 written db' = written db @ [[WDelete (DataKey vctx tk), WPut (TombstoneKey vctx tk) EmptyValue]] \<and>
                 map_of (ldb db') (DataKey vctx tk) = None \<and>
                 map_of (ldb db') (TombstoneKey vctx tk) = Some EmptyValue) \<and>
              (err \<noteq> None \<longrightarrow> db' = db)"
    using exclusive_Write[OF assms delm] foldl_apply_op[OF assms(1), of "[WDelete ?D, WPut ?T EmptyValue]"] TD
    by (auto simp: ldb_Write_def Let_def split: option.splits)
  let ?b = "\<lparr>bctx = CtxVersioned vctx, bvctx = Some vctx, WriteBatch = []\<rparr>"
  let ?ops = "concat (map (callOps vctx) calls)"
  have nb: "NewBatch (CtxVersioned vctx) = Some ?b" by (simp add: NewBatch_def)
  have ops: "foldl batchCall (NewBatch (CtxVersioned vctx)) calls = Some (?b\<lparr>WriteBatch := ?ops\<rparr>)"
    unfolding nb using batchCalls_ops[of ?b vctx calls] by simp
  have commit: "goBatch_Commit db (foldl batchCall (NewBatch (CtxVersioned vctx)) calls) = ldb_Write db ?ops"
    unfolding ops by simp
  show "case goBatch_Commit db (foldl batchCall (NewBatch (CtxVersioned vctx)) calls) of
            (err, db') \<Rightarrow> exclusive (ldb db') \<and>
              (err = None \<longrightarrow>
                 written db' = written db @ [concat (map (callOps vctx) calls)] \<and>
                 ldb db' = foldl apply_op (ldb db) (concat (map (callOps vctx) calls))) \<and>
              (err \<noteq> None \<longrightarrow> db' = db)"
    unfolding commit
    using exclusive_Write[OF assms exclusiveMap_calls[OF m, of vctx calls]] ldb_Write_cases[of db ?ops]
    by (simp add: split_def)
qed

text \<open>
  On the example stores: a delete at the root, a put over the tombstone at the child, and
  the batch of a delete and a put at the child.
\<close>

theorem versioned_writes_exclusive_witness:
  "sorted_wrt (<) (map fst (ldb dbAlpha)) \<and> exclusive (ldb dbAlpha) \<and>
   fst (LevelDB_Delete dbAlpha (CtxVersioned ctxRoot) [0xAA]) = None \<and>
   exclusive (ldb (snd (LevelDB_Delete dbAlpha (CtxVersioned ctxRoot) [0xAA]))) \<and>
   map_of (ldb (snd (LevelDB_Delete dbAlpha (CtxVersioned ctxRoot) [0xAA]))) (DataKey ctxRoot [0xAA]) = None \<and>
   fst (LevelDB_Put dbDeleted (CtxVersioned ctxChild) [0xAA] beta) = None \<and>
   exclusive (ldb (snd (LevelDB_Put dbDeleted (CtxVersioned ctxChild) [0xAA] beta))) \<and>
   map_of (ldb (snd (LevelDB_Put dbDeleted (CtxVersioned ctxChild) [0xAA] beta))) (TombstoneKey ctxChild [0xAA]) = None \<and>
   fst (goBatch_Commit dbAlpha
          (foldl batchCall (NewBatch (CtxVersioned ctxChild)) [CallDelete [0xAA], CallPut [0xAB] beta])) = None \<and>
   exclusive (ldb (snd (goBatch_Commit dbAlpha
          (foldl batchCall (NewBatch (CtxVersioned ctxChild)) [CallDelete [0xAA], CallPut [0xAB] beta])))) \<and>
   written (snd (goBatch_Commit dbAlpha
          (foldl batchCall (NewBatch (CtxVersioned ctxChild)) [CallDelete [0xAA], CallPut [0xAB] beta]))) =
     [[WPut (TombstoneKey ctxChild [0xAA]) EmptyValue, WDelete (DataKey ctxChild [0xAA]),
       WDelete (TombstoneKey ctxChild [0xAB]), WPut (DataKey ctxChild [0xAB]) beta,
       WPut (DataKey ctxChild [0xAB]) beta]] \<and>
   ldb (snd (goBatch_Commit dbAlpha
          (foldl batchCall (NewBatch (CtxVersioned ctxChild)) [CallDelete [0xAA], CallPut [0xAB] beta]))) =
     [(DataKey ctxRoot [0xAA], alpha), (TombstoneKey ctxChild [0xAA], EmptyValue),
      (DataKey ctxChild [0xAB], beta)]"
proof -
  let ?calls = "[CallDelete [0xAA], CallPut [0xAB] beta]"
  let ?X = "goBatch_Commit dbAlpha (foldl batchCall (NewBatch (CtxVersioned ctxChild)) ?calls)"
  have s1: "sorted_wrt (<) (map fst (ldb dbAlpha))" by (simp add: dbAlpha_def)
  have x1: "exclusive (ldb dbAlpha)" by (simp add: exclusive_def isDataKey_def engine_defs)
  have s2: "sorted_wrt (<) (map fst (ldb dbDeleted))" by (simp add: engine_defs)
  have x2: "exclusive (ldb dbDeleted)" by (simp add: exclusive_def isDataKey_def engine_defs)
  have n1: "fst (LevelDB_Delete dbAlpha (CtxVersioned ctxRoot) [0xAA]) = None"
    by (simp add: Let_def ldb_Write_def dbAlpha_def)
  have n2: "fst (LevelDB_Put dbDeleted (CtxVersioned ctxChild) [0xAA] beta) = None"
    by (simp add: Let_def ldb_Write_def dbDeleted_def)
  have n3: "fst ?X = None"
    by (simp add: NewBatch_def Let_def ldb_Write_def dbAlpha_def)
  have w: "written dbAlpha @ [concat (map (callOps ctxChild) ?calls)] =
     [[WPut (TombstoneKey ctxChild [0xAA]) EmptyValue, WDelete (DataKey ctxChild [0xAA]),
       WDelete (TombstoneKey ctxChild [0xAB]), WPut (DataKey ctxChild [0xAB]) beta,
       WPut (DataKey ctxChild [0xAB]) beta]]"
    by (simp add: dbAlpha_def callOps_def)
  have l: "foldl apply_op (ldb dbAlpha) (concat (map (callOps ctxChild) ?calls))
      = [(DataKey ctxRoot [0xAA], alpha), (TombstoneKey ctxChild [0xAA], EmptyValue),
         (DataKey ctxChild [0xAB], beta)]"
    by (simp add: callOps_def engine_defs)
  have a: "exclusive (ldb (snd (LevelDB_Delete dbAlpha (CtxVersioned ctxRoot) [0xAA]))) \<and>
      map_of (ldb (snd (LevelDB_Delete dbAlpha (CtxVersioned ctxRoot) [0xAA]))) (DataKey ctxRoot [0xAA]) = None"
    using versioned_writes_exclusive[OF s1 x1, of ctxRoot "[0xAA]" beta "[]", unfolded split_def] n1
    by blast
  have b: "exclusive (ldb (snd (LevelDB_Put dbDeleted (CtxVersioned ctxChild) [0xAA] beta))) \<and>
      map_of (ldb (snd (LevelDB_Put dbDeleted (CtxVersioned ctxChild) [0xAA] beta))) (TombstoneKey ctxChild [0xAA]) = None"
    using versioned_writes_exclusive[OF s2 x2, of ctxChild "[0xAA]" beta "[]", unfolded split_def] n2
    by blast
  have c: "exclusive (ldb (snd ?X)) \<and>
      written (snd ?X) = written dbAlpha @ [concat (map (callOps ctxChild) ?calls)] \<and>
      ldb (snd ?X) = foldl apply_op (ldb dbAlpha) (concat (map (callOps ctxChild) ?calls))"
    using versioned_writes_exclusive[OF s1 x1, of ctxChild "[0xAA]" beta ?calls, unfolded split_def] n3
    by blast
  show ?thesis
    using s1 x1 n1 a n2 b n3 c unfolding w l by blast
qed

text \<open>
  Claim C7. A \<open>Put\<close> on the batch of a versioned context adds exactly one put of the key
  and value, next to the deletion of the sibling tombstone. The source adds the put twice:
  the batch of one \<open>Put\<close> holds the deletion of the tombstone and two puts of the value.
\<close>

theorem goBatch_Put_puts_value_twice:
  "map_option WriteBatch (goBatch_Put (NewBatch (CtxVersioned vctx)) tk val) =
     Some [WDelete (TombstoneKey vctx tk), WPut (DataKey vctx tk) val, WPut (DataKey vctx tk) val]"
  by (simp add: NewBatch_def Let_def)


section \<open>Blocks: proofs\<close>

subsection \<open>Labels in block data\<close>

lemma length_le64: "length (le64 v) = 8"
  by (simp add: le64_def)

lemma le_decode_prefix:
  "le_decode (map (\<lambda>i. ucast (drop_bit (8 * i) v)) [0..<n]) = take_bit (8 * n) (v :: 64 word)"
proof (induction n arbitrary: v)
  case 0
  then show ?case by simp
next
  case (Suc n)
  have "le_decode (map (\<lambda>i. ucast (drop_bit (8 * i) v)) [0..<Suc n])
      = ucast (ucast v :: 8 word) OR push_bit 8 (le_decode (map (\<lambda>i. ucast (drop_bit (8 * i) (drop_bit 8 v))) [0..<n]))"
    by (simp only: map_upt_Suc le_decode.simps) (simp add: drop_bit_drop_bit add.commute)
  also have "\<dots> = ucast (ucast v :: 8 word) OR push_bit 8 (take_bit (8 * n) (drop_bit 8 v))"
    by (simp only: Suc.IH)
  also have "\<dots> = take_bit (8 * Suc n) v"
    by (rule bit_word_eqI) (auto simp add: bit_simps)
  finally show ?case .
qed

lemma le_decode_le64: "le_decode (le64 v) = v"
  unfolding le64_def le_decode_prefix by (simp add: take_bit_word_eq_self)

lemma length_PutUint64: "i + 8 \<le> length data \<Longrightarrow> length (PutUint64 data i v) = length data"
  by (simp add: PutUint64_def length_le64)

lemma labelAt_PutUint64_same:
  "8 * k + 8 \<le> length data \<Longrightarrow> labelAt (PutUint64 data (8 * k) v) k = v"
  by (simp add: labelAt_def Uint64_def PutUint64_def length_le64 le_decode_le64)

lemma labelAt_PutUint64_other:
  assumes "8 * k + 8 \<le> length data" "j \<noteq> k"
  shows "labelAt (PutUint64 data (8 * k) v) j = labelAt data j"
proof (cases "j < k")
  case True
  then have "8 * j + 8 \<le> 8 * k" by simp
  then have "take 8 (drop (8 * j) (take (8 * k) data @ le64 v @ drop (8 * k + 8) data))
      = take 8 (drop (8 * j) data)"
    using assms(1) by (simp add: take_drop min_def)
  then show ?thesis by (simp add: labelAt_def Uint64_def PutUint64_def)
next
  case False
  then have jk: "8 * k + 8 \<le> 8 * j" using assms(2) by simp
  then have "drop (8 * j) (take (8 * k) data @ le64 v @ drop (8 * k + 8) data)
      = drop (8 * j) data"
    using assms(1) by (simp add: length_le64 min_def)
  then show ?thesis by (simp add: labelAt_def Uint64_def PutUint64_def)
qed

lemma labelAt_PutUint64:
  "8 * k + 8 \<le> length data \<Longrightarrow>
     labelAt (PutUint64 data (8 * k) v) j = (if j = k then v else labelAt data j)"
  by (simp add: labelAt_PutUint64_same labelAt_PutUint64_other)

lemma i32_id: "- (2 ^ 31) \<le> x \<Longrightarrow> x < 2 ^ 31 \<Longrightarrow> i32 x = x"
  by (simp add: i32_def)

lemma putRun_fills:
  assumes "length data = 8 * N" "k + n \<le> N" "8 * int N < 2 ^ 31"
  shows "\<exists>data'. putRun data (8 * int k) n l sv = Some (data', sv + of_nat n) \<and>
           length data' = 8 * N \<and>
           (\<forall>j. labelAt data' j = (if k \<le> j \<and> j < k + n then l else labelAt data j))"
  using assms
proof (induction n arbitrary: data k sv)
  case 0
  then show ?case by auto
next
  case (Suc n)
  let ?data1 = "PutUint64 data (8 * k) l"
  have fit: "8 * k + 8 \<le> length data" using Suc.prems by simp
  have w: "i32 (8 * int k + 8) = 8 * int k + 8"
    using Suc.prems by (intro i32_id) auto
  have len1: "length ?data1 = 8 * N" using fit Suc.prems(1) by (simp add: length_PutUint64)
  have step: "putRun data (8 * int k) (Suc n) l sv = putRun ?data1 (8 * int (Suc k)) n l (sv + 1)"
    using fit w by (simp add: nat_mult_distrib add.commute)
  obtain data' where d': "putRun ?data1 (8 * int (Suc k)) n l (sv + 1) = Some (data', sv + 1 + of_nat n)"
      "length data' = 8 * N"
      "\<forall>j. labelAt data' j = (if Suc k \<le> j \<and> j < Suc k + n then l else labelAt ?data1 j)"
    using Suc.IH[OF len1, of "Suc k" "sv + 1"] Suc.prems by auto
  have "\<forall>j. labelAt data' j = (if k \<le> j \<and> j < k + Suc n then l else labelAt data j)"
    using d'(3) fit by (auto simp: labelAt_PutUint64)
  then show ?case using step d'(1,2) by (simp add: add.assoc add.commute)
qed

lemma oldRemainsLoop_total:
  assumes "length data = 8 * N"
  shows "k \<le> N \<Longrightarrow> oldRemainsLoop data old (8 * k) =
           Some (\<exists>j. k \<le> j \<and> j < N \<and> labelAt data j = old)"
proof (induction "N - k" arbitrary: k)
  case 0
  then have "k = N" by simp
  then show ?case using assms by (subst oldRemainsLoop.simps) auto
next
  case (Suc m)
  then have lt: "k < N" by simp
  have ih: "oldRemainsLoop data old (8 * Suc k) = Some (\<exists>j. Suc k \<le> j \<and> j < N \<and> labelAt data j = old)"
    using Suc by (intro Suc.hyps(1)) auto
  have ex: "(\<exists>j. k \<le> j \<and> j < N \<and> labelAt data j = old) =
        (labelAt data k = old \<or> (\<exists>j. Suc k \<le> j \<and> j < N \<and> labelAt data j = old))"
    using lt by (metis Suc_leI le_eq_less_or_eq order_refl Suc_le_lessD less_imp_le)
  have unfold: "oldRemainsLoop data old (8 * k) =
      (if labelAt data k = old then Some True else oldRemainsLoop data old (8 * Suc k))"
    using lt assms by (subst oldRemainsLoop.simps) (simp add: labelAt_def add.commute)
  show ?case unfolding unfold ih ex by auto
qed

lemma count_conservation:
  assumes "list_all2 (\<lambda>x y. (x = F) = (y = F \<or> y = T)) L L'" "F \<noteq> T"
  shows "length (filter (\<lambda>x. x = F) L) = length (filter (\<lambda>y. y = F) L') + length (filter (\<lambda>y. y = T) L')"
  using assms by (induction rule: list_all2_induct) auto

subsection \<open>Runs inside a block\<close>

lemma slot_bounds:
  fixes sx sy sz px py pz L :: int
  assumes "0 < sx" "0 < sy" "0 < sz"
    and "0 \<le> px" "0 \<le> L" "px + L \<le> sx" "0 \<le> py" "py < sy" "0 \<le> pz" "pz < sz"
  shows "0 \<le> pz * (sx * sy)" "0 \<le> py * sx"
    and "pz * (sx * sy) + py * sx + px + L \<le> sx * sy * sz"
    and "sx \<le> sx * sy * sz" "sx * sy \<le> sx * sy * sz"
proof -
  show 1: "0 \<le> pz * (sx * sy)" using assms by simp
  show 2: "0 \<le> py * sx" using assms by simp
  have "pz * (sx * sy) \<le> (sz - 1) * (sx * sy)"
    using assms by (intro mult_right_mono) auto
  then have a: "pz * (sx * sy) \<le> sx * sy * sz - sx * sy" by (simp add: algebra_simps)
  have "py * sx \<le> (sy - 1) * sx"
    using assms by (intro mult_right_mono) auto
  then have b: "py * sx \<le> sx * sy - sx" by (simp add: algebra_simps)
  show "pz * (sx * sy) + py * sx + px + L \<le> sx * sy * sz" using a b assms by linarith
  have "sx * 1 \<le> sx * sy" using assms by (intro mult_left_mono) auto
  then have c: "sx \<le> sx * sy" by simp
  have "(sx * sy) * 1 \<le> (sx * sy) * sz" using assms by (intro mult_left_mono) auto
  then show d: "sx * sy \<le> sx * sy * sz" by simp
  show "sx \<le> sx * sy * sz" using c d by linarith
qed

lemma rleOffset_slot:
  fixes sx sy sz :: int
  assumes pos: "0 < sx" "0 < sy" "0 < sz" and small: "8 * (sx * sy * sz) < 2 ^ 31"
    and p: "Sub (StartPt rle) offset = (px, py, pz)"
    and inb: "runInBlock (sx, sy, sz) offset rle"
  shows "rleOffset offset (i32 (sx * 8)) (i32 (i32 (sx * 8) * sy)) rle = 8 * ((pz * sy + py) * sx + px)"
    and "0 \<le> (pz * sy + py) * sx + px"
    and "(pz * sy + py) * sx + px + Length rle \<le> sx * sy * sz"
proof -
  have g: "0 \<le> px" "0 \<le> Length rle" "px + Length rle \<le> sx" "0 \<le> py" "py < sy" "0 \<le> pz" "pz < sz"
    using inb p by (simp_all add: runInBlock_def)
  define B where "B = sx * sy * sz"
  define P where "P = sx * sy"
  define A where "A = pz * (sx * sy)"
  define C where "C = py * sx"
  have sb: "0 \<le> A" "0 \<le> C" "A + C + px + Length rle \<le> B" "sx \<le> B" "P \<le> B"
    using slot_bounds[OF pos g] by (simp_all add: A_def B_def C_def P_def)
  have small': "8 * B < 2 ^ 31" using small by (simp add: B_def)
  have Ppos: "0 \<le> P" using pos by (simp add: P_def)
  have e1: "sx * 8 * sy = 8 * P" by (simp add: P_def)
  have e2: "pz * (8 * P) = 8 * A" by (simp add: P_def A_def)
  have e3: "py * (sx * 8) = 8 * C" by (simp add: C_def)
  have nx: "i32 (sx * 8) = sx * 8"
    using pos sb small' by (intro i32_id) linarith+
  have nxy: "i32 (8 * P) = 8 * P"
    using Ppos sb small' by (intro i32_id) linarith+
  have t2: "i32 (8 * A) = 8 * A"
    using sb g small' by (intro i32_id) linarith+
  have t1: "i32 (8 * C) = 8 * C"
    using sb g small' by (intro i32_id) linarith+
  have t0: "i32 (px * 8) = px * 8"
    using sb g small' by (intro i32_id) linarith+
  have s1: "i32 (8 * A + 8 * C) = 8 * A + 8 * C"
    using sb g small' by (intro i32_id) linarith+
  have s0: "i32 (8 * A + 8 * C + px * 8) = 8 * A + 8 * C + px * 8"
    using sb g small' by (intro i32_id) linarith+
  have v: "Value (px, py, pz) 2 = pz" "Value (px, py, pz) 1 = py" "Value (px, py, pz) 0 = px"
    by simp_all
  have "rleOffset offset (i32 (sx * 8)) (i32 (i32 (sx * 8) * sy)) rle = 8 * A + 8 * C + px * 8"
    unfolding rleOffset_def Let_def p v nx e1 nxy e2 e3 t2 t1 s1 t0 s0 by (rule refl)
  also have "\<dots> = 8 * ((pz * sy + py) * sx + px)"
    by (simp add: A_def C_def algebra_simps)
  finally show "rleOffset offset (i32 (sx * 8)) (i32 (i32 (sx * 8) * sy)) rle = 8 * ((pz * sy + py) * sx + px)" .
  show "0 \<le> (pz * sy + py) * sx + px" using g pos by simp
  show "(pz * sy + py) * sx + px + Length rle \<le> sx * sy * sz"
    using sb(3) by (simp add: A_def B_def C_def algebra_simps)
qed

lemma putRuns_fills:
  fixes sx sy sz :: int
  assumes pos: "0 < sx" "0 < sy" "0 < sz" and small: "8 * (sx * sy * sz) < 2 ^ 31"
    and len: "int (length data) = 8 * (sx * sy * sz)"
    and inb: "\<forall>rle \<in> set rs. runInBlock (sx, sy, sz) offset rle"
  shows "\<exists>data' sv'. putRuns data rs offset (i32 (sx * 8)) (i32 (i32 (sx * 8) * sy)) l sv = Some (data', sv') \<and>
           length data' = length data \<and>
           (\<forall>j. labelAt data' j =
                  (if j \<in> (\<Union>rle \<in> set rs. set (runVoxels (sx, sy, sz) offset rle)) then l
                   else labelAt data j))"
  using len inb
proof (induction rs arbitrary: data sv)
  case Nil
  then show ?case by simp
next
  case (Cons rle rs)
  obtain px py pz where p: "Sub (StartPt rle) offset = (px, py, pz)"
    by (cases "Sub (StartPt rle) offset")
  have inb1: "runInBlock (sx, sy, sz) offset rle" using Cons.prems by simp
  note sl = rleOffset_slot[OF pos small p inb1]
  define k where "k = nat ((pz * sy + py) * sx + px)"
  define n where "n = nat (Length rle)"
  define N where "N = nat (sx * sy * sz)"
  have L0: "0 \<le> Length rle" using inb1 p by (simp add: runInBlock_def)
  have Bpos: "0 \<le> sx * sy * sz" using pos by simp
  have lenN: "length data = 8 * N" using Cons.prems(1) Bpos unfolding N_def by linarith
  have kn: "k + n \<le> N" using sl(2,3) L0 unfolding k_def n_def N_def by linarith
  have sm: "8 * int N < 2 ^ 31" using small Bpos unfolding N_def by simp
  have off: "rleOffset offset (i32 (sx * 8)) (i32 (i32 (sx * 8) * sy)) rle = 8 * int k"
    using sl(1,2) unfolding k_def by simp
  obtain data1 where d1: "putRun data (8 * int k) n l sv = Some (data1, sv + of_nat n)"
      "length data1 = 8 * N"
      "\<forall>j. labelAt data1 j = (if k \<le> j \<and> j < k + n then l else labelAt data j)"
    using putRun_fills[OF lenN kn sm, of l sv] by blast
  have rv: "set (runVoxels (sx, sy, sz) offset rle) = {j. k \<le> j \<and> j < k + n}"
    unfolding runVoxels_def p k_def n_def by (auto simp: image_iff)
  have len1: "int (length data1) = 8 * (sx * sy * sz)" using d1(2) lenN Cons.prems(1) by simp
  obtain data' sv' where d': "putRuns data1 rs offset (i32 (sx * 8)) (i32 (i32 (sx * 8) * sy)) l (sv + of_nat n) = Some (data', sv')"
      "length data' = length data1"
      "\<forall>j. labelAt data' j =
                  (if j \<in> (\<Union>rle \<in> set rs. set (runVoxels (sx, sy, sz) offset rle)) then l
                   else labelAt data1 j)"
    using Cons.IH[OF len1, of "sv + of_nat n"] Cons.prems(2) by auto
  have step: "putRuns data (rle # rs) offset (i32 (sx * 8)) (i32 (i32 (sx * 8) * sy)) l sv = Some (data', sv')"
    using d1(1) d'(1) off by (simp add: n_def)
  have "\<forall>j. labelAt data' j =
                  (if j \<in> (\<Union>rle \<in> set (rle # rs). set (runVoxels (sx, sy, sz) offset rle)) then l
                   else labelAt data j)"
    using d'(3) d1(3) rv by auto
  then show ?case using step d'(2) d1(2) lenN by simp
qed

text \<open>
  Claim C5. For a block in the split set of a fine split of \<open>F\<close> into \<open>T\<close>: when every
  voxel covered by the runs carries \<open>F\<close> before the split and \<open>T\<close> does not occur in the
  block, the number of voxels of \<open>F\<close> before the split is the number of voxels of \<open>F\<close>
  plus the number of voxels of \<open>T\<close> after it. The runs lie in the block, the block data
  has the size of a block, and that size fits an \<open>int32\<close>; then \<open>splitLabel\<close> returns
  without an error and without a panic.
\<close>

theorem splitLabel_conserves_voxels:
  fixes sx sy sz :: int
  assumes bc: "ToChunkPoint3d (codec d) (s_block op) = Inr bcoord"
    and bs: "BlockSize d = (sx, sy, sz)"
    and pos: "0 < sx" "0 < sy" "0 < sz"
    and small: "8 * (sx * sy * sz) < 2 ^ 31"
    and len: "int (length data) = 8 * (sx * sy * sz)"
    and rl: "rles op = Some rs"
    and inb: "\<forall>rle \<in> set rs. runInBlock (BlockSize d) (MinPoint bcoord (BlockSize d)) rle"
    and cov: "\<forall>rle \<in> set rs. \<forall>k \<in> set (runVoxels (BlockSize d) (MinPoint bcoord (BlockSize d)) rle).
                labelAt data k = oldLabel op"
    and new: "\<forall>k < length data div 8. labelAt data k \<noteq> newLabel op"
  shows "\<exists>data' splitVoxels oldRemains.
           splitLabel d data op = Ok (data', splitVoxels, oldRemains) \<and>
           countLabel data (oldLabel op) =
             countLabel data' (oldLabel op) + countLabel data' (newLabel op)"
proof -
  let ?off = "MinPoint bcoord (sx, sy, sz)"
  let ?cov = "\<Union>rle \<in> set rs. set (runVoxels (sx, sy, sz) ?off rle)"
  let ?F = "oldLabel op" and ?T = "newLabel op"
  define N where "N = nat (sx * sy * sz)"
  have Bpos: "0 \<le> sx * sy * sz" using pos by simp
  have lenN: "length data = 8 * N" using len Bpos unfolding N_def by linarith
  obtain data' sv' where d': "putRuns data rs ?off (i32 (sx * 8)) (i32 (i32 (sx * 8) * sy)) ?T 0 = Some (data', sv')"
      "length data' = length data"
      "\<forall>j. labelAt data' j = (if j \<in> ?cov then ?T else labelAt data j)"
    using putRuns_fills[OF pos small len, of rs ?off ?T 0] inb unfolding bs by blast
  have rem: "oldRemainsLoop data' ?F 0 = Some (\<exists>j. 0 \<le> j \<and> j < N \<and> labelAt data' j = ?F)"
    using oldRemainsLoop_total[of data' N 0 ?F] d'(2) lenN by simp
  have ok: "splitLabel d data op = Ok (data', sv', \<exists>j. 0 \<le> j \<and> j < N \<and> labelAt data' j = ?F)"
    unfolding splitLabel_def bc bs Let_def rl using d'(1) rem by simp
  have covF: "\<forall>j \<in> ?cov. labelAt data j = ?F" using cov unfolding bs by blast
  have div8: "length data div 8 = N" "length data' div 8 = N" using lenN d'(2) by simp_all
  have cnt: "countLabel data ?F = countLabel data' ?F + countLabel data' ?T"
  proof (cases "?F = ?T")
    case True
    have "\<forall>j < N. j \<notin> ?cov"
    proof (intro allI impI notI)
      fix j assume "j < N" "j \<in> ?cov"
      then show False using covF new True div8 by auto
    qed
    then have same: "\<forall>j < N. labelAt data' j = labelAt data j" using d'(3) by simp
    have "filter (\<lambda>k. labelAt data' k = ?T) [0..<N] = filter (\<lambda>k. labelAt data k = ?T) [0..<N]"
      using same by (intro filter_cong) auto
    moreover have "filter (\<lambda>k. labelAt data k = ?T) [0..<N] = []"
      using new div8 by (auto simp: filter_empty_conv)
    ultimately show ?thesis using True by (simp add: countLabel_def div8)
  next
    case False
    let ?L = "map (labelAt data) [0..<N]" and ?L' = "map (labelAt data') [0..<N]"
    have "list_all2 (\<lambda>x y. (x = ?F) = (y = ?F \<or> y = ?T)) ?L ?L'"
      unfolding list_all2_map1 list_all2_map2
    proof (rule list_all2_same[THEN iffD2], intro ballI)
      fix j assume "j \<in> set [0..<N]"
      then have jN: "j < length data div 8" using div8 by simp
      show "(labelAt data j = ?F) = (labelAt data' j = ?F \<or> labelAt data' j = ?T)"
        using d'(3) covF new jN False by auto
    qed
    from count_conservation[OF this False]
    show ?thesis by (simp add: countLabel_def div8 filter_map comp_def)
  qed
  show ?thesis using ok cnt by blast
qed

text \<open>On the example block: two voxels of label 10, the first of them split off.\<close>

theorem splitLabel_conserves_voxels_witness:
  "countLabel demoBlock 10 = 2 \<and>
   (\<exists>data' splitVoxels oldRemains.
      splitLabel demoData demoBlock demoSplitOp = Ok (data', splitVoxels, oldRemains) \<and>
      countLabel demoBlock (oldLabel demoSplitOp) =
        countLabel data' (oldLabel demoSplitOp) + countLabel data' (newLabel demoSplitOp))"
proof
  show "countLabel demoBlock 10 = 2"
    by (simp add: countLabel_def labelAt_def Uint64_def demoBlock_def upt_conv_Cons)
  show "\<exists>data' splitVoxels oldRemains.
      splitLabel demoData demoBlock demoSplitOp = Ok (data', splitVoxels, oldRemains) \<and>
      countLabel demoBlock (oldLabel demoSplitOp) =
        countLabel data' (oldLabel demoSplitOp) + countLabel data' (newLabel demoSplitOp)"
  proof (rule splitLabel_conserves_voxels[where sx = 2 and sy = 1 and sz = 1
          and bcoord = "(0, 0, 0)" and rs = "[demoRun]"])
    show "ToChunkPoint3d (codec demoData) (s_block demoSplitOp) = Inr (0, 0, 0)"
      by (simp add: demoData_def demoCodec_def demoSplitOp_def)
    show "BlockSize demoData = (2, 1, 1)" by (simp add: demoData_def)
    show "(0::int) < 2" "(0::int) < 1" "(0::int) < 1" by simp_all
    show "8 * (2 * 1 * 1) < (2::int) ^ 31" by simp
    show "int (length demoBlock) = 8 * (2 * 1 * 1)" by (simp add: demoBlock_def)
    show "rles demoSplitOp = Some [demoRun]" by (simp add: demoSplitOp_def)
    show "\<forall>rle\<in>set [demoRun].
       runInBlock (BlockSize demoData) (MinPoint (0, 0, 0) (BlockSize demoData)) rle"
      by (simp add: runInBlock_def demoData_def demoRun_def MinPoint_def Sub_def i32_def)
    have slots: "labelAt demoBlock 0 = 10" "labelAt demoBlock (Suc 0) = 10"
      by (simp_all add: labelAt_def Uint64_def demoBlock_def)
    show "\<forall>rle\<in>set [demoRun].
       \<forall>k\<in>set (runVoxels (BlockSize demoData) (MinPoint (0, 0, 0) (BlockSize demoData)) rle).
          labelAt demoBlock k = oldLabel demoSplitOp"
      using slots
      by (simp add: runVoxels_def demoData_def demoRun_def MinPoint_def Sub_def i32_def demoSplitOp_def)
    have "length demoBlock div 8 = Suc (Suc 0)" by (simp add: demoBlock_def)
    then show "\<forall>k<length demoBlock div 8. labelAt demoBlock k \<noteq> newLabel demoSplitOp"
      using slots by (auto simp: less_Suc_eq demoSplitOp_def)
  qed
qed


section \<open>Merge and split: proofs\<close>

subsection \<open>What the handlers leave alone\<close>

lemma mutcache_logLine [simp]: "mutcache (logLine d l) = mutcache d"
  by (simp add: logLine_def)

lemma panicked_logLine [simp]: "panicked (logLine d l) = panicked d"
  by (simp add: logLine_def)

lemma store_logLine [simp]: "store (logLine d l) = store d"
  by (simp add: logLine_def)

lemma logs_logLine [simp]: "logs (logLine d l) = logs d @ [l]"
  by (simp add: logLine_def)

lemma mutcache_publishBlockChange [simp]: "mutcache (publishBlockChange d m b x) = mutcache d"
  by (simp add: publishBlockChange_def)

lemma panicked_publishBlockChange [simp]: "panicked (publishBlockChange d m b x) = panicked d"
  by (simp add: publishBlockChange_def)

lemma store_publishBlockChange [simp]: "store (publishBlockChange d m b x) = store d"
  by (simp add: publishBlockChange_def)

lemma logs_publishBlockChange [simp]: "logs (publishBlockChange d m b x) = logs d"
  by (simp add: publishBlockChange_def)

lemma mutcache_notifyOrLog [simp]: "mutcache (notifyOrLog d evt l) = mutcache d"
  by (simp add: notifyOrLog_def NotifySubscribers_def split: option.splits)

lemma panicked_notifyOrLog [simp]: "panicked (notifyOrLog d evt l) = panicked d"
  by (simp add: notifyOrLog_def NotifySubscribers_def split: option.splits)

lemma store_notifyOrLog [simp]: "store (notifyOrLog d evt l) = store d"
  by (simp add: notifyOrLog_def NotifySubscribers_def split: option.splits)

lemma mutateCh_notifyOrLog [simp]: "mutateCh (notifyOrLog d evt l) = mutateCh d"
  by (simp add: notifyOrLog_def NotifySubscribers_def logLine_def split: option.splits)

lemma store_publishDownresCommit [simp]: "store (publishDownresCommit d m) = store d"
  by (simp add: publishDownresCommit_def)

lemma store_StopUpdate [simp]: "store (StopUpdate d) = store d"
  by (simp add: StopUpdate_def)

lemma mergeBlock_body_frame:
  "mutcache (mergeBlock_body d ctx op) = mutcache d \<and> panicked (mergeBlock_body d ctx op) = panicked d"
  by (simp add: mergeBlock_body_def Let_def split: option.splits sum.splits prod.splits)

lemma storeBlock_frame:
  "mutcache (storeBlock d ctx op tk x) = mutcache d \<and> panicked (storeBlock d ctx op tk x) = panicked d"
  by (simp add: storeBlock_def Let_def split: option.splits sum.splits prod.splits)

lemma splitBlock_body_frame:
  "mutcache (splitBlock_body d ctx op) = mutcache d"
  by (simp add: splitBlock_body_def storeBlock_frame Let_def
      split: option.splits sum.splits prod.splits result.splits)

lemma mutcache_mergeBlock:
  "mutcache (mergeBlock d ctx op) = (mutcache d)(m_mutID op := mutcache d (m_mutID op) - 1)"
  by (simp add: mergeBlock_def MutDone_def mergeBlock_body_frame)

lemma panicked_mergeBlock: "panicked (mergeBlock d ctx op) = panicked d"
  by (simp add: mergeBlock_def MutDone_def mergeBlock_body_frame)

lemma mutcache_splitBlock:
  "mutcache (splitBlock d ctx op) = (mutcache d)(s_mutID op := mutcache d (s_mutID op) - 1)"
  by (simp add: splitBlock_def MutDone_def splitBlock_body_frame)

lemma mutcache_mutateBlock:
  "msgMutID msg = Some m \<Longrightarrow> mutcache (mutateBlock d msg) m = mutcache d m - 1"
  by (cases "(d, msg)" rule: mutateBlock.cases) (auto simp: mutcache_mergeBlock mutcache_splitBlock)

subsection \<open>The wait group\<close>

lemma handleAll_count:
  assumes "\<forall>msg \<in> set msgs. msgMutID msg = Some m"
  shows "panicked (handleAll d msgs) \<or> mutcache (handleAll d msgs) m = mutcache d m - int (length msgs)"
  using assms
proof (induction msgs arbitrary: d)
  case Nil
  then show ?case by simp
next
  case (Cons msg msgs)
  show ?case
  proof (cases "panicked d")
    case True
    then show ?thesis by simp
  next
    case False
    have "panicked (handleAll (mutateBlock d msg) msgs) \<or>
          mutcache (handleAll (mutateBlock d msg) msgs) m = mutcache (mutateBlock d msg) m - int (length msgs)"
      using Cons.prems by (intro Cons.IH) simp
    then show ?thesis using False Cons.prems by (auto simp: mutcache_mutateBlock)
  qed
qed

lemma handleAll_merge_no_panic:
  assumes "\<forall>msg \<in> set msgs. isMergeMsg msg" "\<not> panicked d"
  shows "\<not> panicked (handleAll d msgs)"
  using assms
proof (induction msgs arbitrary: d)
  case Nil
  then show ?case by simp
next
  case (Cons msg msgs)
  obtain op v where "msg = (OpMerge op, v)"
    using Cons.prems(1) by (cases msg; cases "fst msg") (auto simp: isMergeMsg_def)
  then show ?case using Cons by (simp add: panicked_mergeBlock)
qed

lemma dispatchMerge_state:
  "mutateCh (dispatchMerge d v m mop blocks) =
     mutateCh d @ map (\<lambda>b. (OpMerge \<lparr>m_mutID = m, m_MergeOp = mop, m_block = b\<rparr>, v)) blocks \<and>
   mutcache (dispatchMerge d v m mop blocks) = (mutcache d)(m := mutcache d m + int (length blocks)) \<and>
   panicked (dispatchMerge d v m mop blocks) = panicked d"
proof (induction blocks arbitrary: d)
  case Nil
  then show ?case by simp
next
  case (Cons b blocks)
  let ?d1 = "send (MutAdd d m) (OpMerge \<lparr>m_mutID = m, m_MergeOp = mop, m_block = b\<rparr>, v)"
  have step: "dispatchMerge d v m mop (b # blocks) = dispatchMerge ?d1 v m mop blocks"
    by (simp add: Let_def)
  show ?case
    unfolding step using Cons.IH[of ?d1] by (simp add: MutAdd_def send_def fun_eq_iff)
qed

lemma dispatchCoarse_state:
  "mutateCh (dispatchCoarse d v m delta blocks) =
     mutateCh d @ map (\<lambda>b. (OpSplit \<lparr>s_mutID = m, oldLabel = OldLabel delta, newLabel = NewLabel delta,
                                      rles = None, s_block = b\<rparr>, v)) blocks \<and>
   mutcache (dispatchCoarse d v m delta blocks) = (mutcache d)(m := mutcache d m + int (length blocks)) \<and>
   panicked (dispatchCoarse d v m delta blocks) = panicked d"
proof (induction blocks arbitrary: d)
  case Nil
  then show ?case by simp
next
  case (Cons b blocks)
  let ?d1 = "send (MutAdd d m) (OpSplit \<lparr>s_mutID = m, oldLabel = OldLabel delta, newLabel = NewLabel delta,
                                      rles = None, s_block = b\<rparr>, v)"
  have step: "dispatchCoarse d v m delta (b # blocks) = dispatchCoarse ?d1 v m delta blocks"
    by (simp add: Let_def)
  show ?case
    unfolding step using Cons.IH[of ?d1] by (simp add: MutAdd_def send_def fun_eq_iff)
qed

lemma dispatchFine_state:
  "mutateCh (dispatchFine d v m delta splitmap) =
     mutateCh d @ map (\<lambda>e. (OpSplit \<lparr>s_mutID = m, oldLabel = OldLabel delta, newLabel = NewLabel delta,
                                      rles = Some (snd e), s_block = fst e\<rparr>, v)) splitmap \<and>
   mutcache (dispatchFine d v m delta splitmap) = (mutcache d)(m := mutcache d m + int (length splitmap)) \<and>
   panicked (dispatchFine d v m delta splitmap) = panicked d"
proof (induction splitmap arbitrary: d)
  case Nil
  then show ?case by simp
next
  case (Cons e splitmap)
  obtain b rs where e: "e = (b, rs)" by (cases e)
  let ?d1 = "send (MutAdd d m) (OpSplit \<lparr>s_mutID = m, oldLabel = OldLabel delta, newLabel = NewLabel delta,
                                      rles = Some rs, s_block = b\<rparr>, v)"
  have step: "dispatchFine d v m delta (e # splitmap) = dispatchFine ?d1 v m delta splitmap"
    unfolding e by (simp add: Let_def)
  show ?case
    unfolding step using Cons.IH[of ?d1] by (simp add: MutAdd_def send_def fun_eq_iff e)
qed

lemma MutWait_not_blocked:
  assumes "\<forall>msg \<in> set (mutateCh d). msgMutID msg = Some m"
    and "mutcache d m = int (length (mutateCh d))"
  shows "fst (MutWait d m) \<noteq> Blocked"
  using handleAll_count[OF assms(1), of "d\<lparr>mutateCh := []\<rparr>"] assms(2)
  by (auto simp: MutWait_def Let_def)

lemma MutWait_merge_returns:
  assumes "\<forall>msg \<in> set (mutateCh d). msgMutID msg = Some m \<and> isMergeMsg msg"
    and "mutcache d m = int (length (mutateCh d))" "\<not> panicked d"
  shows "fst (MutWait d m) = Return ()"
proof -
  let ?d = "handleAll (d\<lparr>mutateCh := []\<rparr>) (mutateCh d)"
  have np: "\<not> panicked ?d"
    using assms by (intro handleAll_merge_no_panic) auto
  have "mutcache ?d m = 0"
    using handleAll_count[of "mutateCh d" m "d\<lparr>mutateCh := []\<rparr>"] assms np by auto
  then show ?thesis using np by (simp add: MutWait_def Let_def)
qed

lemma processMerge_returns:
  assumes "mutateCh d = []" "\<not> panicked d" "mutcache d (mutationID d + 1) = 0"
  shows "\<exists>r. fst (processMerge d v delta) = Return r"
proof (cases "notifyError d (MergeBlockEvent delta)")
  case (Some e)
  then show ?thesis by (simp add: processMerge_def NotifySubscribers_def)
next
  case None
  let ?d0 = "d\<lparr>events := events d @ [MergeBlockEvent delta]\<rparr>"
  let ?m = "mutationID d + 1"
  let ?d1 = "?d0\<lparr>mutationID := ?m\<rparr>"
  let ?d2 = "dispatchMerge ?d1 v ?m (dmMergeOp delta) (dmBlocks delta)"
  have q: "\<forall>msg \<in> set (mutateCh ?d2). msgMutID msg = Some ?m \<and> isMergeMsg msg"
    using assms(1) by (auto simp: dispatchMerge_state isMergeMsg_def)
  have c: "mutcache ?d2 ?m = int (length (mutateCh ?d2))"
    using assms(1,3) by (simp add: dispatchMerge_state)
  have p: "\<not> panicked ?d2" using assms(2) by (simp add: dispatchMerge_state)
  have "fst (MutWait ?d2 ?m) = Return ()" by (rule MutWait_merge_returns[OF q c p])
  then obtain d3 where w: "MutWait ?d2 ?m = (Return (), d3)" by (cases "MutWait ?d2 ?m") auto
  show ?thesis
    using None w
    by (simp add: processMerge_def NotifySubscribers_def NewMutationID_def Let_def
        split: option.splits sum.splits prod.splits)
qed

lemma processSplit_not_blocked:
  assumes "mutateCh d = []" "mutcache d (mutationID d + 1) = 0"
  shows "fst (processSplit d v delta) \<noteq> Blocked"
proof -
  let ?m = "mutationID d + 1"
  let ?d1 = "(StartUpdate d)\<lparr>mutationID := ?m\<rparr>"
  let ?d2 = "(case Split delta of
                      None \<Rightarrow> dispatchCoarse ?d1 v ?m delta (SortedBlocks delta)
                    | Some splitmap \<Rightarrow>
                        let d3 = dispatchFine (?d1\<lparr>deleteBlkCh := []\<rparr>) v ?m delta splitmap;
                            d4 = notifyOrLog d3 (ChangeSizeEvent (DeltaNewSize (NewLabel delta) (SplitVoxels delta)))
                                   (Errorf ''cannot notify subscribers for event'')
                        in notifyOrLog d4 (ChangeSizeEvent (DeltaModSize (OldLabel delta) (- SplitVoxels delta)))
                             (Errorf ''cannot notify subscribers for event''))"
  have q: "\<forall>msg \<in> set (mutateCh ?d2). msgMutID msg = Some ?m"
    using assms(1) by (auto simp: dispatchCoarse_state dispatchFine_state StartUpdate_def Let_def split: option.splits)
  have c: "mutcache ?d2 ?m = int (length (mutateCh ?d2))"
    using assms by (auto simp: dispatchCoarse_state dispatchFine_state StartUpdate_def Let_def split: option.splits)
  have nb: "fst (MutWait ?d2 ?m) \<noteq> Blocked" by (rule MutWait_not_blocked[OF q c])
  show ?thesis
    using nb
    by (auto simp: processSplit_def NewMutationID_def StartUpdate_def Let_def
        split: outcome.splits prod.splits option.splits)
qed

text \<open>
  Claim C10. Every dispatched block message counts the wait group of its mutation down
  exactly once on every path through its handler, the early returns on a missing block, a
  failed deserialisation, a wrong block size or a failed store among them. So the barrier of
  the coordinator returns once the dispatched messages have been handled: a merge that starts
  with no message pending and a fresh mutation id returns from \<open>processMerge\<close>, and a split
  never stays blocked in \<open>processSplit\<close>.
\<close>

theorem every_message_counts_down_once:
  "mutcache (mergeBlock d ctx mop) = (mutcache d)(m_mutID mop := mutcache d (m_mutID mop) - 1) \<and>
   mutcache (splitBlock d ctx sop) = (mutcache d)(s_mutID sop := mutcache d (s_mutID sop) - 1) \<and>
   (mutateCh d = [] \<and> \<not> panicked d \<and> mutcache d (mutationID d + 1) = 0 \<longrightarrow>
      (\<exists>r. fst (processMerge d v delta) = Return r) \<and> fst (processSplit d v sdelta) \<noteq> Blocked)"
  using mutcache_mergeBlock mutcache_splitBlock processMerge_returns processSplit_not_blocked
  by blast

text \<open>On the example volume: the merge of label 11 into 10 and the split of the example run.\<close>

theorem every_message_counts_down_once_witness:
  "mutateCh demoData = [] \<and> \<not> panicked demoData \<and> mutcache demoData (mutationID demoData + 1) = 0 \<and>
   (\<exists>r. fst (processMerge demoData 3 demoDelta) = Return r) \<and>
   fst (processSplit demoData 3 demoFineSplit) \<noteq> Blocked"
proof -
  have h: "mutateCh demoData = [] \<and> \<not> panicked demoData \<and> mutcache demoData (mutationID demoData + 1) = 0"
    by (simp add: demoData_def)
  show ?thesis
    using every_message_counts_down_once[of demoData "NewVersionedCtx demoData 3" _ _ 3 demoDelta demoFineSplit] h
    by blast
qed

subsection \<open>The index update of a merge\<close>

lemma sameConfig_refl [simp]: "sameConfig d d"
  by (simp add: sameConfig_def)

lemma sameConfig_trans: "sameConfig d d' \<Longrightarrow> sameConfig d' d'' \<Longrightarrow> sameConfig d d''"
  by (simp add: sameConfig_def)

lemma sameConfig_logLine [simp]: "sameConfig d (logLine d l)"
  by (simp add: sameConfig_def logLine_def)

lemma sameConfig_notifyOrLog [simp]: "sameConfig d (notifyOrLog d evt l)"
  by (simp add: sameConfig_def notifyOrLog_def NotifySubscribers_def logLine_def split: option.splits)

lemma sameConfig_publishBlockChange [simp]: "sameConfig d (publishBlockChange d m b x)"
  by (simp add: sameConfig_def publishBlockChange_def)

lemma sameConfig_store [simp]: "sameConfig d (d\<lparr>store := db\<rparr>)"
  by (simp add: sameConfig_def)

lemma sameConfig_mergeBlock: "sameConfig d (mergeBlock d ctx op)"
  by (simp add: sameConfig_def mergeBlock_def MutDone_def mergeBlock_body_def Let_def logLine_def
      publishBlockChange_def split: option.splits sum.splits prod.splits)

lemma sameConfig_storeBlock: "sameConfig d (storeBlock d ctx op tk x)"
  by (simp add: sameConfig_def storeBlock_def Let_def logLine_def publishBlockChange_def
      split: option.splits sum.splits prod.splits)

lemma sameConfig_splitBlock: "sameConfig d (splitBlock d ctx op)"
proof -
  have "sameConfig d (splitBlock_body d ctx op)"
    using sameConfig_storeBlock
    by (auto simp: splitBlock_body_def Let_def sameConfig_def logLine_def notifyOrLog_def
        NotifySubscribers_def split: option.splits sum.splits prod.splits result.splits)
  then show ?thesis by (simp add: splitBlock_def MutDone_def sameConfig_def)
qed

lemma sameConfig_mutateBlock: "sameConfig d (mutateBlock d msg)"
  by (cases "(d, msg)" rule: mutateBlock.cases)
     (simp_all add: sameConfig_mergeBlock sameConfig_splitBlock)

lemma sameConfig_handleAll: "sameConfig d (handleAll d msgs)"
proof (induction msgs arbitrary: d)
  case Nil
  then show ?case by simp
next
  case (Cons msg msgs)
  show ?case
  proof (cases "panicked d")
    case True
    then show ?thesis by (simp add: sameConfig_def)
  next
    case False
    then show ?thesis
      using sameConfig_trans[OF sameConfig_mutateBlock[of d msg] Cons.IH[of "mutateBlock d msg"]]
      by simp
  qed
qed

lemma sameConfig_dispatchMerge: "sameConfig d (dispatchMerge d v m mop blocks)"
proof (induction blocks arbitrary: d)
  case Nil
  then show ?case by simp
next
  case (Cons b blocks)
  let ?d1 = "send (MutAdd d m) (OpMerge \<lparr>m_mutID = m, m_MergeOp = mop, m_block = b\<rparr>, v)"
  have "sameConfig d ?d1" by (simp add: sameConfig_def send_def MutAdd_def)
  then show ?case using sameConfig_trans[OF _ Cons.IH[of ?d1]] by (simp add: Let_def)
qed

lemma sameConfig_MutWait: "sameConfig d (snd (MutWait d m))"
proof -
  have "sameConfig d (d\<lparr>mutateCh := []\<rparr>)" by (simp add: sameConfig_def)
  then have "sameConfig d (handleAll (d\<lparr>mutateCh := []\<rparr>) (mutateCh d))"
    using sameConfig_handleAll sameConfig_trans by blast
  then show ?thesis by (simp add: MutWait_def Let_def)
qed

lemma Merge_Nil2 [simp]: "IZYXSlice_Merge xs [] = xs"
  by (cases xs) simp_all

lemma set_Merge: "set (IZYXSlice_Merge xs ys) = set xs \<union> set ys"
  by (induction xs ys rule: IZYXSlice_Merge.induct) auto

lemma sorted_Merge:
  "sorted_wrt (<) xs \<Longrightarrow> sorted_wrt (<) ys \<Longrightarrow> sorted_wrt (<) (IZYXSlice_Merge xs ys)"
  by (induction xs ys rule: IZYXSlice_Merge.induct) (auto simp: set_Merge)

lemma foldl_Merge:
  assumes "sorted_wrt (<) a" "\<forall>b \<in> set bs. sorted_wrt (<) b"
  shows "sorted_wrt (<) (foldl IZYXSlice_Merge a bs) \<and>
         set (foldl IZYXSlice_Merge a bs) = set a \<union> (\<Union>b \<in> set bs. set b)"
  using assms
proof (induction bs arbitrary: a)
  case Nil
  then show ?case by simp
next
  case (Cons b bs)
  have "sorted_wrt (<) (IZYXSlice_Merge a b)" using Cons.prems by (simp add: sorted_Merge)
  from Cons.IH[OF this] Cons.prems show ?case by (auto simp: set_Merge)
qed

lemma strict_sorted_list_of_set:
  fixes xs :: "'a::linorder list"
  shows "sorted_wrt (<) xs \<Longrightarrow> sorted_list_of_set (set xs) = xs"
  by (simp add: strict_sorted_iff sorted_list_of_set.idem_if_sorted_distinct)

lemma GetLabelMeta_single:
  assumes "GetLabelMeta d ctx [l] = Inr m"
  shows "storeError d = None \<and>
     ((LevelDB_Get (store d) (CtxVersioned ctx) (NewLabelIndexTKey (codec d) l) = Inr None \<and>
         m = \<lparr>Voxels = 0, Blocks = []\<rparr>) \<or>
      (\<exists>val. LevelDB_Get (store d) (CtxVersioned ctx) (NewLabelIndexTKey (codec d) l) = Inr (Some val) \<and>
         UnmarshalBinary (codec d) val = Inr m))"
  using assms
  by (auto simp: GetLabelMeta_def split: option.splits sum.splits)

lemma GetLabelMeta_loop_sum:
  assumes "\<forall>l \<in> set ls. GetLabelMeta d ctx [l] = Inr (prev l)"
  shows "GetLabelMeta_loop d ctx ls acc =
           Inr \<lparr>Voxels = Voxels acc + sum_list (map (\<lambda>l. Voxels (prev l)) ls),
                Blocks = foldl IZYXSlice_Merge (Blocks acc) (map (\<lambda>l. Blocks (prev l)) ls)\<rparr>"
  using assms
proof (induction ls arbitrary: acc)
  case Nil
  then show ?case by simp
next
  case (Cons l ls)
  have one: "GetLabelMeta d ctx [l] = Inr (prev l)" using Cons.prems by simp
  have rest: "\<forall>l \<in> set ls. GetLabelMeta d ctx [l] = Inr (prev l)" using Cons.prems by simp
  note s = GetLabelMeta_single[OF one]
  show ?case
  proof (cases "LevelDB_Get (store d) (CtxVersioned ctx) (NewLabelIndexTKey (codec d) l) = Inr None")
    case True
    then have "prev l = \<lparr>Voxels = 0, Blocks = []\<rparr>" using s by auto
    then show ?thesis using True Cons.IH[OF rest, of acc] by simp
  next
    case False
    then obtain val where v: "LevelDB_Get (store d) (CtxVersioned ctx) (NewLabelIndexTKey (codec d) l) = Inr (Some val)"
        "UnmarshalBinary (codec d) val = Inr (prev l)"
      using s by auto
    show ?thesis
      using v Cons.IH[OF rest, of "\<lparr>Voxels = Voxels acc + Voxels (prev l),
                  Blocks = IZYXSlice_Merge (Blocks acc) (Blocks (prev l))\<rparr>"]
      by (simp add: add.assoc)
  qed
qed

lemma GetLabelMeta_sum:
  assumes "\<forall>l \<in> set ls. GetLabelMeta d ctx [l] = Inr (prev l)" "storeError d = None"
  shows "GetLabelMeta d ctx ls =
           Inr \<lparr>Voxels = sum_list (map (\<lambda>l. Voxels (prev l)) ls),
                Blocks = foldl IZYXSlice_Merge [] (map (\<lambda>l. Blocks (prev l)) ls)\<rparr>"
  using GetLabelMeta_loop_sum[OF assms(1), of "\<lparr>Voxels = 0, Blocks = []\<rparr>"] assms(2)
  by (simp add: GetLabelMeta_def)

lemma mergeIndexBatch_calls:
  "mergeIndexBatch d v delta data =
     foldl batchCall (NewBatch (CtxVersioned (NewVersionedCtx d v)))
       (CallPut (NewLabelIndexTKey (codec d) (Target (dmMergeOp delta))) data #
        map (\<lambda>m. CallDelete (NewLabelIndexTKey (codec d) m)) (Merged (dmMergeOp delta)))"
  by (simp add: mergeIndexBatch_def Let_def foldl_map)

lemma mergeIndexBatch_ops:
  "map_option WriteBatch (mergeIndexBatch d v delta data) = Some (mergeIndexOps d v (dmMergeOp delta) data)"
proof -
  let ?ctx = "NewVersionedCtx d v"
  let ?b = "\<lparr>bctx = CtxVersioned ?ctx, bvctx = Some ?ctx, WriteBatch = []\<rparr>"
  have nb: "NewBatch (CtxVersioned ?ctx) = Some ?b" by (simp add: NewBatch_def)
  show ?thesis
    unfolding mergeIndexBatch_calls nb
    by (subst batchCalls_ops[of ?b ?ctx])
       (simp_all add: mergeIndexOps_def callOps_def Let_def comp_def)
qed

lemma mergeIndexOps_cong: "sameConfig d d' \<Longrightarrow> mergeIndexOps d' v op data = mergeIndexOps d v op data"
  by (simp add: mergeIndexOps_def sameConfig_def NewVersionedCtx_def)

lemma processMerge_commit:
  assumes "processMerge d v delta = (Return None, d')"
  shows "\<exists>data. MarshalBinary (codec d) \<lparr>Voxels = TargetVoxels delta + MergedVoxels delta,
                                          Blocks = dmBlocks delta\<rparr> = Inr data \<and>
           written (store d') \<noteq> [] \<and>
           last (written (store d')) = mergeIndexOps d v (dmMergeOp delta) data"
proof -
  let ?meta = "\<lparr>Voxels = TargetVoxels delta + MergedVoxels delta, Blocks = dmBlocks delta\<rparr>"
  have ne: "notifyError d (MergeBlockEvent delta) = None"
    using assms by (auto simp: processMerge_def NotifySubscribers_def split: option.splits)
  define d0 where "d0 = d\<lparr>events := events d @ [MergeBlockEvent delta]\<rparr>"
  define m where "m = mutationID d0 + 1"
  define d1 where "d1 = d0\<lparr>mutationID := m\<rparr>"
  define d2 where "d2 = snd (MutWait (dispatchMerge d1 v m (dmMergeOp delta) (dmBlocks delta)) m)"
  define d3 where "d3 = MutDelete d2 m"
  have c01: "sameConfig d d1" by (simp add: sameConfig_def d0_def d1_def)
  have c12: "sameConfig d1 d2"
    unfolding d2_def using sameConfig_dispatchMerge sameConfig_MutWait sameConfig_trans by blast
  have c23: "sameConfig d2 d3" by (simp add: sameConfig_def d3_def MutDelete_def)
  have c: "sameConfig d d3" using c01 c12 c23 sameConfig_trans by blast
  have "\<exists>data db'. MarshalBinary (codec d3) ?meta = Inr data \<and>
           goBatch_Commit (store d3) (mergeIndexBatch d3 v delta data) = (None, db') \<and>
           store d' = db'"
    using assms ne unfolding d3_def d2_def d1_def m_def d0_def
    by (auto simp: processMerge_def NotifySubscribers_def NewMutationID_def Let_def
        split: prod.splits outcome.splits option.splits if_splits sum.splits)
  then obtain data db' where
      mb: "MarshalBinary (codec d3) ?meta = Inr data"
      and cm: "goBatch_Commit (store d3) (mergeIndexBatch d3 v delta data) = (None, db')"
      and st: "store d' = db'"
    by blast
  obtain b where b: "mergeIndexBatch d3 v delta data = Some b"
      "WriteBatch b = mergeIndexOps d3 v (dmMergeOp delta) data"
    using mergeIndexBatch_ops[of d3 v delta data] by auto
  have "written db' = written (store d3) @ [mergeIndexOps d3 v (dmMergeOp delta) data]"
    using cm b by (auto simp: ldb_Write_def split: option.splits)
  then have "written (store d') \<noteq> [] \<and> last (written (store d')) = mergeIndexOps d v (dmMergeOp delta) data"
    using st mergeIndexOps_cong[OF c] by simp
  moreover have "MarshalBinary (codec d) ?meta = Inr data"
    using mb c by (simp add: sameConfig_def)
  ultimately show ?thesis by blast
qed

lemmas demo_defs = demoData_def demoStore_def demoCodec_def NewVersionedCtx_def
  DataKey_def TombstoneKey_def MinVersionKey_def MaxVersionKey_def dataKeyClass_def
  getSingleKeyVersions_def VersionedKeyValue_def ancestors_def key_version_def key_tombstone_def
  encodeKey_def be32_def le64_def upt_conv_Cons Let_def

lemmas run_defs = mergeTask_def GetLabelMeta_def processMerge_def NotifySubscribers_def
  NewMutationID_def MutAdd_def send_def MutWait_def mergeBlock_def MutDone_def mergeBlock_body_def
  blockBytesOf_def Prod_def i64_def mergeLoop.simps Uint64_def PutUint64_def ldb_Write_def
  logLine_def publishBlockChange_def MutDelete_def mergeIndexBatch_def NewBatch_def notifyOrLog_def
  publishDownresCommit_def StopUpdate_def StartUpdate_def EmptyValue_def

lemmas split_defs = SplitLabels_def newSplitLabel_def Stats_def processSplit_def splitIndices_def
  splitBlock_def splitBlock_body_def storeBlock_def splitLabel_def MinPoint_def Sub_def i32_id
  rleOffset_def oldRemainsLoop.simps

text \<open>
  Claim C3. For every merge of the labels \<open>M\<close> into \<open>T\<close> at version \<open>V\<close> that completes
  successfully, the batch committed last writes the index entry of \<open>T\<close> with a voxel count
  that is the sum (in 64 bits) of the previous voxel counts of \<open>T\<close> and of all labels in
  \<open>M\<close> and with the sorted union of their block lists, and writes a tombstone for the index
  entry of every label in \<open>M\<close>. The previous entries are what \<open>GetLabelMeta\<close> reads for
  each label before the merge; their block lists are ascending.
\<close>

theorem merge_commits_index:
  assumes ok: "fst (mergeTask d v op) = Return None"
    and prev: "\<forall>l \<in> set (Target op # Merged op). GetLabelMeta d (NewVersionedCtx d v) [l] = Inr (prev l)"
    and srt: "\<forall>l \<in> set (Target op # Merged op). sorted_wrt (<) (Blocks (prev l))"
  shows "\<exists>data.
      MarshalBinary (codec d)
        \<lparr>Voxels = Voxels (prev (Target op)) + sum_list (map (\<lambda>m. Voxels (prev m)) (Merged op)),
         Blocks = sorted_list_of_set (\<Union>l \<in> set (Target op # Merged op). set (Blocks (prev l)))\<rparr> = Inr data \<and>
      last (written (store (snd (mergeTask d v op)))) =
        [WDelete (TombstoneKey (NewVersionedCtx d v) (NewLabelIndexTKey (codec d) (Target op))),
         WPut (DataKey (NewVersionedCtx d v) (NewLabelIndexTKey (codec d) (Target op))) data,
         WPut (DataKey (NewVersionedCtx d v) (NewLabelIndexTKey (codec d) (Target op))) data] @
        concat (map (\<lambda>m. [WPut (TombstoneKey (NewVersionedCtx d v) (NewLabelIndexTKey (codec d) m)) EmptyValue,
                           WDelete (DataKey (NewVersionedCtx d v) (NewLabelIndexTKey (codec d) m))])
                    (Merged op))"
proof -
  let ?ctx = "NewVersionedCtx d v"
  let ?T = "Target op" and ?M = "Merged op"
  have tm: "GetLabelMeta d ?ctx [?T] = Inr (prev ?T)" using prev by simp
  have se: "storeError d = None" using GetLabelMeta_single[OF tm] by simp
  have mprev: "\<forall>l \<in> set ?M. GetLabelMeta d ?ctx [l] = Inr (prev l)" using prev by simp
  let ?mb = "foldl IZYXSlice_Merge [] (map (\<lambda>l. Blocks (prev l)) ?M)"
  let ?mm = "\<lparr>Voxels = sum_list (map (\<lambda>l. Voxels (prev l)) ?M), Blocks = ?mb\<rparr>"
  have mm: "GetLabelMeta d ?ctx ?M = Inr ?mm" by (rule GetLabelMeta_sum[OF mprev se])
  let ?delta = "\<lparr>dmMergeOp = op, dmBlocks = IZYXSlice_Merge (Blocks (prev ?T)) ?mb,
                 TargetVoxels = Voxels (prev ?T),
                 MergedVoxels = sum_list (map (\<lambda>l. Voxels (prev l)) ?M)\<rparr>"
  have task: "mergeTask d v op =
      (case processMerge d v ?delta of
                       (Return (Some e), d') \<Rightarrow>
                         (Return (Some e), StopUpdate (logLine d' (Criticalf ''unable to process merge'')))
                     | (Return None, d') \<Rightarrow> (Return None, StopUpdate d')
                     | (Blocked, d') \<Rightarrow> (Blocked, d')
                     | (Crash, d') \<Rightarrow> (Crash, d'))"
    by (simp add: mergeTask_def Let_def tm mm)
  obtain d' where pm: "processMerge d v ?delta = (Return None, d')"
      and sn: "snd (mergeTask d v op) = StopUpdate d'"
    using ok unfolding task
    by (auto split: prod.splits outcome.splits option.splits)
  obtain data where mb: "MarshalBinary (codec d)
        \<lparr>Voxels = Voxels (prev ?T) + sum_list (map (\<lambda>l. Voxels (prev l)) ?M),
         Blocks = IZYXSlice_Merge (Blocks (prev ?T)) ?mb\<rparr> = Inr data"
      and lw: "last (written (store d')) = mergeIndexOps d v op data"
    using processMerge_commit[OF pm] by auto
  have s1: "sorted_wrt (<) ?mb \<and> set ?mb = (\<Union>l \<in> set ?M. set (Blocks (prev l)))"
    using foldl_Merge[of "[]" "map (\<lambda>l. Blocks (prev l)) ?M"] srt by simp
  have s2: "sorted_wrt (<) (IZYXSlice_Merge (Blocks (prev ?T)) ?mb)"
    using s1 srt by (simp add: sorted_Merge)
  have s3: "set (IZYXSlice_Merge (Blocks (prev ?T)) ?mb) = (\<Union>l \<in> set (?T # ?M). set (Blocks (prev l)))"
    using s1 by (simp add: set_Merge)
  have blocks: "IZYXSlice_Merge (Blocks (prev ?T)) ?mb =
      sorted_list_of_set (\<Union>l \<in> set (?T # ?M). set (Blocks (prev l)))"
    using strict_sorted_list_of_set[OF s2] unfolding s3 by simp
  show ?thesis
    using mb lw unfolding blocks sn by (intro exI[of _ data]) (simp add: mergeIndexOps_def Let_def)
qed

text \<open>On the example volume: label 11 is merged into label 10.\<close>

theorem merge_commits_index_witness:
  "\<exists>data.
      MarshalBinary (codec demoData)
        \<lparr>Voxels = Voxels (demoPrev (Target demoMerge)) + sum_list (map (\<lambda>m. Voxels (demoPrev m)) (Merged demoMerge)),
         Blocks = sorted_list_of_set (\<Union>l \<in> set (Target demoMerge # Merged demoMerge). set (Blocks (demoPrev l)))\<rparr> = Inr data \<and>
      last (written (store (snd (mergeTask demoData 3 demoMerge)))) =
        [WDelete (TombstoneKey (NewVersionedCtx demoData 3) (NewLabelIndexTKey (codec demoData) (Target demoMerge))),
         WPut (DataKey (NewVersionedCtx demoData 3) (NewLabelIndexTKey (codec demoData) (Target demoMerge))) data,
         WPut (DataKey (NewVersionedCtx demoData 3) (NewLabelIndexTKey (codec demoData) (Target demoMerge))) data] @
        concat (map (\<lambda>m. [WPut (TombstoneKey (NewVersionedCtx demoData 3) (NewLabelIndexTKey (codec demoData) m)) EmptyValue,
                           WDelete (DataKey (NewVersionedCtx demoData 3) (NewLabelIndexTKey (codec demoData) m))])
                    (Merged demoMerge))"
proof (rule merge_commits_index)
  show "fst (mergeTask demoData 3 demoMerge) = Return None"
    by (simp add: demoMerge_def run_defs demo_defs)
  show "\<forall>l \<in> set (Target demoMerge # Merged demoMerge).
          GetLabelMeta demoData (NewVersionedCtx demoData 3) [l] = Inr (demoPrev l)"
    by (simp add: demoMerge_def demoPrev_def GetLabelMeta_def demo_defs)
  show "\<forall>l \<in> set (Target demoMerge # Merged demoMerge). sorted_wrt (<) (Blocks (demoPrev l))"
    by (simp add: demoMerge_def demoPrev_def)
qed

subsection \<open>Failures of a merge\<close>

lemma mergeBlock_body_logs:
  "written (store (mergeBlock_body d ctx mop)) = written (store d) \<Longrightarrow>
     \<exists>l. logs (mergeBlock_body d ctx mop) = logs d @ [l]"
  by (auto simp: mergeBlock_body_def Let_def ldb_Write_def
      split: option.splits sum.splits prod.splits if_splits)

lemma mergeBlock_logs:
  "written (store (mergeBlock d ctx mop)) = written (store d) \<Longrightarrow>
     \<exists>l. logs (mergeBlock d ctx mop) = logs d @ [l]"
  using mergeBlock_body_logs[of d ctx mop] by (simp add: mergeBlock_def MutDone_def)

lemma handleAll_merge_all:
  "\<not> panicked d \<Longrightarrow>
     handleAll d (map (\<lambda>mop. (OpMerge mop, v)) mops) = foldl mutateBlock d (map (\<lambda>mop. (OpMerge mop, v)) mops)"
  by (induction mops arbitrary: d) (simp_all add: panicked_mergeBlock)

lemma MergeLabels_result:
  "fst (MergeLabels d v op) =
     (case startError d of Some e \<Rightarrow> Some e | None \<Rightarrow> notifyError d (MergeStartEvent op))"
  by (simp add: MergeLabels_def Let_def StartUpdate_def NotifySubscribers_def split: option.splits)

lemma mergeTask_failure_logged:
  assumes "fst (mergeTask d v op) = Return (Some e)"
  shows "logs (snd (mergeTask d v op)) \<noteq> [] \<and>
         last (logs (snd (mergeTask d v op))) \<in>
           {Errorf ''cannot get block indices of to merge target label'',
            Errorf ''cannot get block indices of to merge labels'',
            Criticalf ''unable to process merge''}"
  using assms
  by (auto simp: mergeTask_def Let_def StopUpdate_def logLine_def
      split: sum.splits prod.splits outcome.splits option.splits)

text \<open>
  Claim C6, as amended. \<open>MergeLabels\<close> returns an error only when the start of the merge is
  refused or the start event cannot be delivered, and no error otherwise: the failure of a
  block rewrite or of the commit of the index is not returned to the caller. Every merge
  message sent to the block handlers is handled, whatever became of the ones before it. The
  handler of a merge message that writes nothing to the store logs exactly one line. A merge
  task that fails, in reading the metadata of the target label or of the merged labels or
  in \<open>processMerge\<close> (the commit of the index among its errors), ends with its line in the
  log: that the block indices of the target label or of the merged labels cannot be had,
  or \<open>unable to process merge\<close>.
\<close>

theorem merge_failures_are_logged_not_returned:
  "fst (MergeLabels d v op) =
     (case startError d of Some e \<Rightarrow> Some e | None \<Rightarrow> notifyError d (MergeStartEvent op)) \<and>
   (\<not> panicked d \<longrightarrow>
      handleAll d (map (\<lambda>mop. (OpMerge mop, v)) mops) =
        foldl mutateBlock d (map (\<lambda>mop. (OpMerge mop, v)) mops)) \<and>
   (written (store (mergeBlock d ctx mop)) = written (store d) \<longrightarrow>
      (\<exists>l. logs (mergeBlock d ctx mop) = logs d @ [l])) \<and>
   (\<forall>e. fst (mergeTask d v op) = Return (Some e) \<longrightarrow>
      logs (snd (mergeTask d v op)) \<noteq> [] \<and>
      last (logs (snd (mergeTask d v op))) \<in>
        {Errorf ''cannot get block indices of to merge target label'',
         Errorf ''cannot get block indices of to merge labels'',
         Criticalf ''unable to process merge''})"
  using MergeLabels_result mergeBlock_logs handleAll_merge_all mergeTask_failure_logged
  by blast

text \<open>
  On the example volume with the two defects: the handler of the missing block logs a line
  and stores nothing, the commit of the index fails, and \<open>MergeLabels\<close> returns no error.
\<close>

theorem merge_failures_are_logged_not_returned_witness:
  "\<not> panicked demoBroken \<and>
   written (store (mergeBlock demoBroken (NewVersionedCtx demoBroken 3) demoMergeOp3)) = written (store demoBroken) \<and>
   (\<exists>l. logs (mergeBlock demoBroken (NewVersionedCtx demoBroken 3) demoMergeOp3) = logs demoBroken @ [l]) \<and>
   fst (mergeTask demoBroken 3 demoMerge) =
     Return (Some (Wrapped ''Error on commiting block indices'' (EngineError 5))) \<and>
   logs (snd (mergeTask demoBroken 3 demoMerge)) \<noteq> [] \<and>
   fst (MergeLabels demoBroken 3 demoMerge) = None \<and>
   handleAll demoBroken [(OpMerge demoMergeOp3, 3)] = mutateBlock demoBroken (OpMerge demoMergeOp3, 3)"
proof -
  have p: "\<not> panicked demoBroken" by (simp add: demoBroken_def demoData_def)
  have w1: "written (store (mergeBlock demoBroken (NewVersionedCtx demoBroken 3) demoMergeOp3)) =
      written (store demoBroken)"
    by (simp add: demoBroken_def demoMergeOp3_def demoMerge_def run_defs demo_defs)
  have w2: "fst (mergeTask demoBroken 3 demoMerge) =
     Return (Some (Wrapped ''Error on commiting block indices'' (EngineError 5)))"
    by (simp add: demoBroken_def demoMerge_def run_defs demo_defs)
  have s: "startError demoBroken = None" "notifyError demoBroken (MergeStartEvent demoMerge) = None"
    by (simp_all add: demoBroken_def demoData_def)
  show ?thesis
    using merge_failures_are_logged_not_returned[of demoBroken 3 demoMerge "[demoMergeOp3]"
        "NewVersionedCtx demoBroken 3" demoMergeOp3] p w1 w2 s
    by auto
qed

text \<open>
  The claim as it was stated fails on the same state: a block rewrite and the commit of
  the index fail, both are logged, and the call returns no error.
\<close>

theorem merge_error_not_returned_counterexample:
  "fst (MergeLabels demoBroken 3 demoMerge) = None \<and>
   logs (snd (MergeLabels demoBroken 3 demoMerge)) =
     [Errorf ''nil label block where merge was done!'', Criticalf ''unable to process merge'']"
  by (simp add: MergeLabels_def demoBroken_def demoMerge_def run_defs demo_defs)

subsection \<open>Split\<close>

lemma SplitCoarseLabels_frame:
  "store (snd (SplitCoarseLabels d v fromLabel splitLbl r)) = store d \<and>
   mutateCh (snd (SplitCoarseLabels d v fromLabel splitLbl r)) = mutateCh d"
  by (auto simp: SplitCoarseLabels_def newSplitLabel_def Data_NewLabel_def NotifySubscribers_def Let_def
      split: option.splits sum.splits prod.splits)

text \<open>A run of negative length makes the number of blocks too large for \<open>make\<close>.\<close>

lemma unat_max64: "unat (- 1 :: 64 word) = 18446744073709551615"
  by (simp add: unsigned_minus_1_eq_mask mask_eq_exp_minus_1)

lemma SplitCoarseLabels_negative_run:
  "fst (SplitCoarseLabels demoData 3 11 0 (Inr [\<lparr>StartPt = (2, 0, 0), Length = - 1\<rparr>])) = Crash"
  by (simp add: SplitCoarseLabels_def newSplitLabel_def Data_NewLabel_def NotifySubscribers_def Stats_def
      coarseBlocks_def makeLimit_def demoData_def Let_def unat_max64)

text \<open>
  Claim C1. A coarse split rewrites the voxels of the old label in every listed block to
  the new label, removes the listed blocks from the index entry of the old label and writes
  the index entry of the new label with the relabelled voxel count and the listed blocks.
  \<open>SplitCoarseLabels\<close> does none of it: it never writes to the store and sends no message
  to a block handler. On the example volume the split of block \<open>[0,0,2]\<close> from label 11
  returns the new label 12 and the block still holds label 11. The branch of
  \<open>processSplit\<close> for a coarse split, which no path of \<open>SplitCoarseLabels\<close> reaches,
  would store the entry of the old label under the new label as well.
\<close>

theorem coarse_split_rewrites_nothing:
  "store (snd (SplitCoarseLabels d v fromLabel splitLbl r)) = store d \<and>
   mutateCh (snd (SplitCoarseLabels d v fromLabel splitLbl r)) = mutateCh d \<and>
   fst (SplitCoarseLabels demoData 3 11 0 (Inr [\<lparr>StartPt = (2, 0, 0), Length = 1\<rparr>])) = Return (12, None) \<and>
   LevelDB_Get (store demoData) (CtxVersioned (NewVersionedCtx demoData 3))
       (NewBlockTKeyByCoord (codec demoData) [0, 0, 2]) =
     Inr (Some [11, 0, 0, 0, 0, 0, 0, 0, 11, 0, 0, 0, 0, 0, 0, 0]) \<and>
   (case processSplit demoData 3 demoCoarse of
      (out, d') \<Rightarrow>
        out = Return None \<and>
        GetLabelMeta d' (NewVersionedCtx d' 3) [11] = Inr \<lparr>Voxels = 3, Blocks = [[0, 0, 1]]\<rparr> \<and>
        GetLabelMeta d' (NewVersionedCtx d' 3) [12] = Inr \<lparr>Voxels = 3, Blocks = [[0, 0, 1]]\<rparr>)"
proof (intro conjI)
  show "store (snd (SplitCoarseLabels d v fromLabel splitLbl r)) = store d"
    by (simp add: SplitCoarseLabels_frame)
  show "mutateCh (snd (SplitCoarseLabels d v fromLabel splitLbl r)) = mutateCh d"
    by (simp add: SplitCoarseLabels_frame)
  show "fst (SplitCoarseLabels demoData 3 11 0 (Inr [\<lparr>StartPt = (2, 0, 0), Length = 1\<rparr>])) = Return (12, None)"
    by (simp add: SplitCoarseLabels_def newSplitLabel_def Data_NewLabel_def NotifySubscribers_def Stats_def
        coarseBlocks_def makeLimit_def demoData_def Let_def)
  show "LevelDB_Get (store demoData) (CtxVersioned (NewVersionedCtx demoData 3))
       (NewBlockTKeyByCoord (codec demoData) [0, 0, 2]) =
     Inr (Some [11, 0, 0, 0, 0, 0, 0, 0, 11, 0, 0, 0, 0, 0, 0, 0])"
    by (simp add: demo_defs)
  show "case processSplit demoData 3 demoCoarse of
      (out, d') \<Rightarrow>
        out = Return None \<and>
        GetLabelMeta d' (NewVersionedCtx d' 3) [11] = Inr \<lparr>Voxels = 3, Blocks = [[0, 0, 1]]\<rparr> \<and>
        GetLabelMeta d' (NewVersionedCtx d' 3) [12] = Inr \<lparr>Voxels = 3, Blocks = [[0, 0, 1]]\<rparr>"
    by (simp add: demoCoarse_def replaceLabel_def replaceLoop.simps split_defs run_defs demo_defs)
qed

text \<open>
  Claim C2. A fine split stores under the index key of the new label the entry with the
  split voxel count and the sorted blocks of the split. \<open>splitIndices\<close> puts the serialised
  entry of the old label under both keys. On the example volume one voxel of label 10 in
  block \<open>[0,0,0]\<close> is split into label 13: the block is rewritten, the entry of label 10
  becomes 2 voxels in its two blocks, and the entry read back for label 13 is the same
  entry, not 1 voxel in block \<open>[0,0,0]\<close>.
\<close>

theorem fine_split_writes_old_meta_for_new_label:
  "case SplitLabels demoData 3 10 13 (Inr [demoRun]) of
     (out, d') \<Rightarrow>
       out = Return (13, None) \<and>
       LevelDB_Get (store d') (CtxVersioned (NewVersionedCtx d' 3)) (NewBlockTKeyByCoord (codec d') [0, 0, 0]) =
         Inr (Some [13, 0, 0, 0, 0, 0, 0, 0, 10, 0, 0, 0, 0, 0, 0, 0]) \<and>
       GetLabelMeta d' (NewVersionedCtx d' 3) [10] = Inr \<lparr>Voxels = 2, Blocks = [[0, 0, 0], [0, 0, 1]]\<rparr> \<and>
       GetLabelMeta d' (NewVersionedCtx d' 3) [13] = Inr \<lparr>Voxels = 2, Blocks = [[0, 0, 0], [0, 0, 1]]\<rparr>"
  by (simp add: demoRun_def split_defs run_defs demo_defs)


section \<open>Octants: proofs\<close>

text \<open>
  Claim C8. The grouping of changed blocks puts the block at \<open>(x, y, z)\<close> into slot
  \<open>(z AND 1) * 4 + (y AND 1) * 2 + (x AND 1)\<close> of its low-resolution block, a different
  slot for each of the eight parities. The source shifts the parities of \<open>z\<close> and \<open>y\<close> to
  the right, which leaves nothing of them: the blocks at \<open>(0,0,0)\<close>, \<open>(0,1,0)\<close> and
  \<open>(0,0,1)\<close> all get slot 0, and of three changed blocks of one octant only the last one
  visited is kept.
\<close>

theorem octantIdx_ignores_y_and_z:
  "octantIdx (0, 1, 0) = 0 \<and> octantOfParity (0, 1, 0) = 2 \<and>
   octantIdx (0, 0, 1) = 0 \<and> octantOfParity (0, 0, 1) = 4 \<and>
   octantIdx (0, 0, 0) = 0 \<and> octantOfParity (0, 0, 0) = 0 \<and>
   (case getHiresChanges demoCodec [([0, 0, 0], LabelsBlock 1), ([0, 1, 0], LabelsBlock 2), ([1, 0, 0], LabelsBlock 3)] of
      Ok octants \<Rightarrow> octants [0, 0, 0] = Some [Some 3, None, None, None, None, None, None, None]
    | _ \<Rightarrow> False)"
  by (simp add: octantIdx_def octantOfParity_def go_shr_def go_rem_def i32_def getHiresChanges_def
      demoCodec_def Let_def eval_nat_numeral)


end
